theory Spec2Isabelle
  imports Complex_Main
begin

section \<open>Chunked file storage service (FTS.go)\<close>

text \<open>
  The service has two handlers of interest, \<open>uploadFileHandler\<close> and
  \<open>downloadFileHandler\<close>. Both are modelled as functions over an explicit store.
  Go's \<open>[]byte\<close> and \<open>string\<close> are sequences of 8-bit values; both are modelled as
  \<^typ>\<open>string\<close>, whose elements are 8-bit characters.
\<close>

subsection \<open>The uploaded file as a reader\<close>

text \<open>
  \<open>r.FormFile\<close> yields a \<open>multipart.File\<close>: a section reader over the bytes held in memory,
  or an \<open>os.File\<close> over a temporary file. Both deliver, on each \<open>Read\<close>, as many bytes as fit
  into the buffer or remain in the file, and report \<open>io.EOF\<close> with zero bytes once the
  end is reached. A temporary file can in addition fail with an I/O error: \<open>bad\<close> is the
  offset of an unreadable byte, if there is one.
\<close>

datatype io_error = EOF | EIO

record File =
  data :: string
  off :: nat
  bad :: "nat option"

definition Read :: "nat \<Rightarrow> File \<Rightarrow> File \<times> string \<times> io_error option" where
  "Read n f =
     (if length (data f) \<le> off f then (f, [], Some EOF)
      else
        let p = take n (drop (off f) (data f)) in
        if (case bad f of None \<Rightarrow> False | Some k \<Rightarrow> off f \<le> k \<and> k < off f + length p)
        then (f, [], Some EIO)
        else (f\<lparr>off := off f + length p\<rparr>, p, None))"

subsection \<open>Splitting (the read loop of uploadFileHandler)\<close>

definition chunkSize :: nat where
  "chunkSize = 2 ^ 20"

text \<open>
  The loop \<open>for { chunk := make([]byte, chunkSize); n, err := file.Read(chunk); ... }\<close>,
  with the buffer size as a parameter. A read error other than \<open>io.EOF\<close> leaves the loop
  with the error; \<open>n == 0\<close> leaves it with the chunks collected so far; otherwise
  \<open>chunk[:n]\<close> is appended.
\<close>

function read_chunks :: "nat \<Rightarrow> File \<Rightarrow> string list \<Rightarrow> io_error + string list" where
  "read_chunks csz file chunks =
     (case Read csz file of
        (file', chunk, err) \<Rightarrow>
          if err \<noteq> None \<and> err \<noteq> Some EOF then Inl EIO
          else if length chunk = 0 then Inr chunks
          else read_chunks csz file' (chunks @ [chunk]))"
  by pat_completeness auto
termination
  by (relation "measure (\<lambda>(csz, f, chunks). length (data f) - off f)")
     (auto simp: Read_def Let_def split: if_splits option.splits)

declare read_chunks.simps [simp del]

text \<open>The merge loop of downloadFileHandler: every chunk is written to one buffer.\<close>

definition mergedFile :: "string list \<Rightarrow> string" where
  "mergedFile chunks = foldl (\<lambda>buf chunk. buf @ chunk) [] chunks"

text \<open>
  The splitter as the specification describes it: pieces of exactly \<open>n\<close> bytes, cut from
  the front, until nothing is left. Used as the reference the read loop is compared with.
\<close>

fun chunks_of :: "nat \<Rightarrow> 'a list \<Rightarrow> 'a list list" where
  "chunks_of n xs = (if n = 0 \<or> xs = [] then [] else take n xs # chunks_of n (drop n xs))"

declare chunks_of.simps [simp del]

subsection \<open>The request and its multipart form\<close>

text \<open>
  The packages \<open>net/http\<close> and \<open>mime/multipart\<close> are not part of the repository; the
  following definitions follow their documentation. \<open>ParseMultipartForm maxMemory\<close> parses
  the whole body: file parts are kept in memory up to a total of \<open>maxMemory\<close> bytes, and a
  part that does not fit is written to a temporary file on disk. No file part is refused
  for its size. A part without a form name is skipped; a part without a file name is a
  form value and no file; the name of a file is the last element of the path the part
  gives (\<open>filepath.Base\<close>, with \<open>/\<close> as the separator); a body of more than 1000 parts
  is refused. Form values are of no interest to the handlers: the library's account of
  the memory taken by values and headers, by which it can refuse a body, is not
  modelled, and the memory account counts payload bytes only. \<open>tmp_disk\<close> is the
  condition of the host's temporary storage.
\<close>

datatype disk = Healthy | OpenFails | Unreadable nat

datatype http_error = ErrNotMultipart | ErrMessageTooLarge | ErrMissingFile | ErrOpen

text \<open>\<open>filename_param\<close> is the \<open>filename\<close> parameter of the part's Content-Disposition.\<close>

record Part =
  FormName :: string
  filename_param :: string
  payload :: string

definition Base :: "string \<Rightarrow> string" where
  "Base path =
     (if path = [] then ''.''
      else
        let stripped = rev (dropWhile (\<lambda>c. c = CHR ''/'') (rev path));
            element = rev (takeWhile (\<lambda>c. c \<noteq> CHR ''/'') (rev stripped))
        in if element = [] then ''/'' else element)"

definition FileName :: "Part \<Rightarrow> string" where
  "FileName p = (if filename_param p = [] then [] else Base (filename_param p))"

record FileHeader =
  Filename :: string
  Size :: nat
  content :: string
  tmpfile :: "disk option"

record Request =
  multipart_body :: "Part list option"
  tmp_disk :: disk
  query :: "(string \<times> string) list"
  MultipartForm :: "(string \<times> FileHeader) list option"

fun ReadForm :: "nat \<Rightarrow> disk \<Rightarrow> Part list \<Rightarrow> (string \<times> FileHeader) list" where
  "ReadForm maxFileMemoryBytes d [] = []"
| "ReadForm maxFileMemoryBytes d (p # ps) =
     (if FormName p = [] then ReadForm maxFileMemoryBytes d ps
      else if FileName p = [] then ReadForm maxFileMemoryBytes d ps
      else
        let n = length (payload p) in
        if n > maxFileMemoryBytes
        then (FormName p, \<lparr>Filename = FileName p, Size = n, content = payload p, tmpfile = Some d\<rparr>)
               # ReadForm maxFileMemoryBytes d ps
        else (FormName p, \<lparr>Filename = FileName p, Size = n, content = payload p, tmpfile = None\<rparr>)
               # ReadForm (maxFileMemoryBytes - n) d ps)"

definition ParseMultipartForm :: "nat \<Rightarrow> Request \<Rightarrow> Request \<times> http_error option" where
  "ParseMultipartForm maxMemory r =
     (case MultipartForm r of
        Some form \<Rightarrow> (r, None)
      | None \<Rightarrow>
          (case multipart_body r of
             None \<Rightarrow> (r, Some ErrNotMultipart)
           | Some ps \<Rightarrow>
               if 1000 < length ps then (r, Some ErrMessageTooLarge)
               else (r\<lparr>MultipartForm := Some (ReadForm maxMemory (tmp_disk r) ps)\<rparr>, None)))"

definition Open :: "FileHeader \<Rightarrow> http_error + File" where
  "Open fh =
     (case tmpfile fh of
        None \<Rightarrow> Inr \<lparr>data = content fh, off = 0, bad = None\<rparr>
      | Some Healthy \<Rightarrow> Inr \<lparr>data = content fh, off = 0, bad = None\<rparr>
      | Some OpenFails \<Rightarrow> Inl ErrOpen
      | Some (Unreadable k) \<Rightarrow> Inr \<lparr>data = content fh, off = 0, bad = Some k\<rparr>)"

definition defaultMaxMemory :: nat where
  "defaultMaxMemory = 32 * 2 ^ 20"

definition FormFile :: "Request \<Rightarrow> string \<Rightarrow> http_error + File \<times> FileHeader" where
  "FormFile r key =
     (case (if MultipartForm r = None then ParseMultipartForm defaultMaxMemory r else (r, None)) of
        (r', Some err) \<Rightarrow> Inl err
      | (r', None) \<Rightarrow>
          (case MultipartForm r' of
             None \<Rightarrow> Inl ErrMissingFile
           | Some form \<Rightarrow>
               (case filter (\<lambda>(k, fh). k = key) form of
                  [] \<Rightarrow> Inl ErrMissingFile
                | (k, fh) # fhs \<Rightarrow>
                    (case Open fh of Inl e \<Rightarrow> Inl e | Inr f \<Rightarrow> Inr (f, fh)))))"

text \<open>\<open>r.URL.Query().Get(key)\<close>: the first value of the key, or the empty string.\<close>

definition Get :: "(string \<times> string) list \<Rightarrow> string \<Rightarrow> string" where
  "Get q key = (case map_of q key of None \<Rightarrow> [] | Some v \<Rightarrow> v)"

subsection \<open>Responses\<close>

record Response =
  status :: nat
  headers :: "(string \<times> string) list"
  body :: string

text \<open>
  \<open>headers\<close> holds the header fields the handler sets itself; those the server adds to
  every response (date, length, detected content type) are left out. \<open>http.Error\<close> sends
  the message and a newline as plain text under the given status.
\<close>

definition http_Error :: "string \<Rightarrow> nat \<Rightarrow> Response" where
  "http_Error msg code =
     \<lparr>status = code,
      headers = [(''Content-Type'', ''text/plain; charset=utf-8''),
                 (''X-Content-Type-Options'', ''nosniff'')],
      body = msg @ [CHR 0x0A]\<rparr>"

subsection \<open>The store\<close>

text \<open>
  The two relations \<open>file_metadata (file_id, filename, total_chunks)\<close> and
  \<open>file_chunks (file_id, chunk_index, chunk_data)\<close> are held as lists of rows in order of
  arrival; their declarations are not in the repository. A statement fails when the
  store says so (\<open>failing\<close>: a lost connection, a violated constraint); a failed statement
  changes no relation. \<open>journal\<close> records every statement that reaches the store.
  A file id is the canonical text of its UUID. The store holds numbers of any size;
  Go's \<open>int\<close> has 64 bits, and \<open>Scan\<close> fails on a number that does not fit.
\<close>

datatype stmt =
    InsertMetadata string string int
  | InsertChunk string int string
  | SelectMetadata string
  | SelectChunk string int

datatype sql_error = ErrStmt | ErrNoRows | ErrScan

record DB =
  file_metadata :: "(string \<times> string \<times> int) list"
  file_chunks :: "(string \<times> int \<times> string) list"
  failing :: "stmt \<Rightarrow> bool"
  journal :: "stmt list"

definition Exec :: "stmt \<Rightarrow> DB \<Rightarrow> sql_error option \<times> DB" where
  "Exec q db =
     (let db1 = db\<lparr>journal := journal db @ [q]\<rparr> in
      if failing db q then (Some ErrStmt, db1)
      else
        (case q of
           InsertMetadata i f n \<Rightarrow> (None, db1\<lparr>file_metadata := file_metadata db @ [(i, f, n)]\<rparr>)
         | InsertChunk i k d \<Rightarrow> (None, db1\<lparr>file_chunks := file_chunks db @ [(i, k, d)]\<rparr>)
         | SelectMetadata i \<Rightarrow> (None, db1)
         | SelectChunk i k \<Rightarrow> (None, db1)))"

text \<open>
  The rows a \<open>SELECT ... WHERE\<close> matches; \<open>db.QueryRow(...).Scan(...)\<close> takes the first
  of them, or fails when the statement fails, no row matches, or \<open>total_chunks\<close> does
  not fit an \<open>int\<close>.
\<close>

definition find_metadata :: "string \<Rightarrow> DB \<Rightarrow> (string \<times> int) option" where
  "find_metadata fileID db =
     (case filter (\<lambda>(i, f, n). i = fileID) (file_metadata db) of
        [] \<Rightarrow> None
      | (i, f, n) # rows \<Rightarrow> Some (f, n))"

definition find_chunk :: "string \<Rightarrow> int \<Rightarrow> DB \<Rightarrow> string option" where
  "find_chunk fileID index db =
     (case filter (\<lambda>(i, k, d). i = fileID \<and> k = index) (file_chunks db) of
        [] \<Rightarrow> None
      | (i, k, d) # rows \<Rightarrow> Some d)"

definition QueryRow_metadata :: "string \<Rightarrow> DB \<Rightarrow> (sql_error + string \<times> int) \<times> DB" where
  "QueryRow_metadata fileID db =
     (let db1 = db\<lparr>journal := journal db @ [SelectMetadata fileID]\<rparr> in
      if failing db (SelectMetadata fileID) then (Inl ErrStmt, db1)
      else
        (case find_metadata fileID db of
           None \<Rightarrow> (Inl ErrNoRows, db1)
         | Some (f, n) \<Rightarrow>
             if - (2 ^ 63) \<le> n \<and> n < 2 ^ 63 then (Inr (f, n), db1) else (Inl ErrScan, db1)))"

definition QueryRow_chunk :: "string \<Rightarrow> int \<Rightarrow> DB \<Rightarrow> (sql_error + string) \<times> DB" where
  "QueryRow_chunk fileID index db =
     (let db1 = db\<lparr>journal := journal db @ [SelectChunk fileID index]\<rparr> in
      if failing db (SelectChunk fileID index) then (Inl ErrStmt, db1)
      else
        (case find_chunk fileID index db of
           None \<Rightarrow> (Inl ErrNoRows, db1)
         | Some d \<Rightarrow> (Inr d, db1)))"

subsection \<open>uploadFileHandler\<close>

text \<open>
  \<open>fileID\<close> is the value \<open>uuid.New()\<close> returns. The goroutines started by the handler each
  issue one statement; \<open>finish\<close> gives, for the goroutine of each index, the time at which
  its statement reaches the store, so that the statements arrive in the order
  \<open>sort_key finish\<close> of the indices. Every arrival order is obtained from some \<open>finish\<close>.
  The handler continues after \<open>wg.Wait()\<close>, when all goroutines are done. A goroutine
  whose statement fails prints the error and ends; the variable \<open>err\<close> the goroutines
  share decides only what is printed, and printing is not modelled. The limits of the
  host's memory are not modelled: the chunks of an upload are all held in memory, and
  the \<open>2^31\<close> chunks that would overflow the counter of the WaitGroup are beyond what the
  runtime can address.
\<close>

definition store_chunk :: "string \<Rightarrow> nat \<times> string \<Rightarrow> DB \<Rightarrow> DB" where
  "store_chunk fileID = (\<lambda>(index, chunk) db. snd (Exec (InsertChunk fileID (int index) chunk) db))"

definition uploadFileHandler :: "string \<Rightarrow> (nat \<Rightarrow> nat) \<Rightarrow> Request \<Rightarrow> DB \<Rightarrow> Response \<times> DB" where
  "uploadFileHandler fileID finish r db =
     (let r1 = fst (ParseMultipartForm (10 * 2 ^ 20) r) in
      case FormFile r1 ''file'' of
        Inl e \<Rightarrow> (http_Error ''Error retrieving file'' 400, db)
      | Inr (f, handler) \<Rightarrow>
          (case read_chunks chunkSize f [] of
             Inl e \<Rightarrow> (http_Error ''Error reading file'' 500, db)
           | Inr chunks \<Rightarrow>
               let totalChunks = int (length chunks) in
               (case Exec (InsertMetadata fileID (Filename handler) totalChunks) db of
                  (Some e, db1) \<Rightarrow> (http_Error ''Error storing file metadata'' 500, db1)
                | (None, db1) \<Rightarrow>
                    let db2 = fold (store_chunk fileID)
                                (sort_key (\<lambda>(index, chunk). finish index) (enumerate 0 chunks)) db1
                    in (\<lparr>status = 200, headers = [],
                         body = ''File uploaded successfully with ID: '' @ fileID\<rparr>, db2))))"

subsection \<open>downloadFileHandler\<close>

text \<open>
  \<open>sync.WaitGroup\<close> keeps its counter in 32 bits and reads it as a signed number:
  \<open>Add\<close> adds the low 32 bits of its argument and panics when the counter is negative
  afterwards; \<open>Done\<close> is \<open>Add(-1)\<close>; \<open>Wait\<close> returns once the counter is zero.
\<close>

definition int32 :: "int \<Rightarrow> int" where
  "int32 x = (let y = x mod 2 ^ 32 in if y < 2 ^ 31 then y else y - 2 ^ 32)"

definition wg_Add :: "int \<Rightarrow> int \<Rightarrow> int option" where
  "wg_Add counter delta =
     (let v = int32 (counter + delta) in if v < 0 then None else Some v)"

definition wg_Done :: "int \<Rightarrow> int option" where
  "wg_Done counter = wg_Add counter (- 1)"

text \<open>
  \<open>make([][]byte, n)\<close> panics when \<open>n\<close> is negative or the slice headers, 24 bytes each,
  exceed what the runtime can address (\<open>2^48\<close> bytes on 64-bit Linux); otherwise every
  slot is the empty slice. Below that bound the limits of the host's memory are not
  modelled.
\<close>

definition maxAlloc :: int where
  "maxAlloc = 2 ^ 48"

definition make_chunks :: "int \<Rightarrow> string list option" where
  "make_chunks n = (if n < 0 \<or> maxAlloc < 24 * n then None else Some (replicate (nat n) []))"

text \<open>
  The outcomes of a download: a response is sent; the handler panics, which the server
  recovers by closing the connection without a response; a goroutine started by the
  handler panics, which ends the process; \<open>wg.Wait()\<close> never returns.
\<close>

datatype reply = Sent Response | Panicked | Crashed | Blocked

text \<open>
  The body of a goroutine: a query that fails leaves the slot of \<open>chunks\<close> as it was
  made, and \<open>wg.Done()\<close> runs in either case.
\<close>

definition fetch_chunk :: "string \<Rightarrow> nat \<Rightarrow> string list \<times> DB \<Rightarrow> string list \<times> DB" where
  "fetch_chunk fileID index = (\<lambda>(chunks, db).
     case QueryRow_chunk fileID (int index) db of
       (Inl e, db') \<Rightarrow> (chunks, db')
     | (Inr chunkData, db') \<Rightarrow> (chunks[index := chunkData], db'))"

text \<open>
  The goroutine together with the counter it decrements; \<open>None\<close> for the counter says
  that a \<open>Done\<close> has panicked and the process has ended.
\<close>

definition chunk_reader ::
  "string \<Rightarrow> nat \<Rightarrow> string list \<times> DB \<times> int option \<Rightarrow> string list \<times> DB \<times> int option" where
  "chunk_reader fileID index = (\<lambda>(chunks, db, wg).
     case wg of
       None \<Rightarrow> (chunks, db, None)
     | Some counter \<Rightarrow>
         (case fetch_chunk fileID index (chunks, db) of
            (chunks', db') \<Rightarrow> (chunks', db', wg_Done counter)))"

text \<open>
  When \<open>total_chunks\<close> does not fit the counter, \<open>wg.Add\<close> panics or leaves a counter
  that is smaller than the number of goroutines; in the second case \<open>wg.Wait()\<close> lets the
  handler go on early and a later \<open>Done\<close> ends the process. The model gives \<open>Crashed\<close>
  for this case and does not say whether a response leaves before the process ends.
\<close>

definition downloadFileHandler :: "(nat \<Rightarrow> nat) \<Rightarrow> Request \<Rightarrow> DB \<Rightarrow> reply \<times> DB" where
  "downloadFileHandler finish r db =
     (let fileID = Get (query r) ''id'' in
      if fileID = [] then (Sent (http_Error ''File ID is required'' 400), db)
      else
        (case QueryRow_metadata fileID db of
           (Inl e, db1) \<Rightarrow> (Sent (http_Error ''File not found'' 404), db1)
         | (Inr (filename, totalChunks), db1) \<Rightarrow>
             (case wg_Add 0 totalChunks of
                None \<Rightarrow> (Panicked, db1)
              | Some counter \<Rightarrow>
                  (case make_chunks totalChunks of
                     None \<Rightarrow> (Panicked, db1)
                   | Some chunks0 \<Rightarrow>
                       (case fold (chunk_reader fileID) (sort_key finish [0..<nat totalChunks])
                               (chunks0, db1, Some counter) of
                          (chunks, db2, None) \<Rightarrow> (Crashed, db2)
                        | (chunks, db2, Some c) \<Rightarrow>
                            if c = 0
                            then (Sent \<lparr>status = 200,
                                        headers = [(''Content-Disposition'',
                                                    ''attachment; filename='' @ filename)],
                                        body = mergedFile chunks\<rparr>, db2)
                            else (Blocked, db2))))))"

subsection \<open>Auxiliary notions for the properties\<close>

text \<open>The store states a run passes through: one more after each statement.\<close>

fun states_from :: "('a \<Rightarrow> 's \<Rightarrow> 's) \<Rightarrow> 'a list \<Rightarrow> 's \<Rightarrow> 's list" where
  "states_from step [] s = [s]"
| "states_from step (x # xs) s = s # states_from step xs (step x s)"

text \<open>
  The states of the store during \<open>uploadFileHandler\<close>, branch for branch as in the handler:
  the state it starts in, the state after the metadata statement, and the state after
  each chunk statement in order of arrival.
\<close>

definition uploadFileHandler_states :: "string \<Rightarrow> (nat \<Rightarrow> nat) \<Rightarrow> Request \<Rightarrow> DB \<Rightarrow> DB list" where
  "uploadFileHandler_states fileID finish r db =
     (let r1 = fst (ParseMultipartForm (10 * 2 ^ 20) r) in
      case FormFile r1 ''file'' of
        Inl e \<Rightarrow> [db]
      | Inr (f, handler) \<Rightarrow>
          (case read_chunks chunkSize f [] of
             Inl e \<Rightarrow> [db]
           | Inr chunks \<Rightarrow>
               let totalChunks = int (length chunks) in
               (case Exec (InsertMetadata fileID (Filename handler) totalChunks) db of
                  (Some e, db1) \<Rightarrow> [db, db1]
                | (None, db1) \<Rightarrow>
                    db # states_from (store_chunk fileID)
                           (sort_key (\<lambda>(index, chunk). finish index) (enumerate 0 chunks)) db1)))"

text \<open>The number of chunk rows the store holds for a file id.\<close>

definition persisted_chunks :: "string \<Rightarrow> DB \<Rightarrow> nat" where
  "persisted_chunks fileID db = length (filter (\<lambda>(i, k, d). i = fileID) (file_chunks db))"

text \<open>
  The invariant of the data model, read on one state of the store: a FileRecord that a
  reader can see declares as many chunks as are persisted for its id.
\<close>

definition record_matches_chunks :: "string \<Rightarrow> DB \<Rightarrow> bool" where
  "record_matches_chunks fileID db =
     (case find_metadata fileID db of
        None \<Rightarrow> True
      | Some (f, n) \<Rightarrow> n = int (persisted_chunks fileID db))"

text \<open>A reader hits an unreadable byte if it lies between its offset and the end.\<close>

definition faulty :: "File \<Rightarrow> bool" where
  "faulty f = (case bad f of None \<Rightarrow> False | Some k \<Rightarrow> off f \<le> k \<and> k < length (data f))"

text \<open>
  What the rows of \<open>file_chunks\<close> give for the slot of an index: the data of the first
  row of that file and index, or nothing when the read fails or there is no such row.
\<close>

definition slot_after_read :: "string \<Rightarrow> DB \<Rightarrow> nat \<Rightarrow> string" where
  "slot_after_read fileID db index =
     (if failing db (SelectChunk fileID (int index)) then []
      else
        (case filter (\<lambda>(i, k, d). i = fileID \<and> k = int index) (file_chunks db) of
           [] \<Rightarrow> []
         | (i, k, d) # rows \<Rightarrow> d))"

text \<open>The place of an index in a given arrival order, as a \<open>finish\<close> function.\<close>

definition position :: "nat list \<Rightarrow> nat \<Rightarrow> nat" where
  "position xs i = length (takeWhile (\<lambda>x. x \<noteq> i) xs)"

subsection \<open>Example inputs\<close>

text \<open>
  An upload request whose body is one file part named \<open>file\<close>, a download request for an
  id, and a store without rows.
\<close>

definition form_request :: "string \<Rightarrow> string \<Rightarrow> Request" where
  "form_request fname bytes =
     \<lparr>multipart_body = Some [\<lparr>FormName = ''file'', filename_param = fname, payload = bytes\<rparr>],
      tmp_disk = Healthy, query = [], MultipartForm = None\<rparr>"

definition download_request :: "string \<Rightarrow> Request" where
  "download_request fileID =
     \<lparr>multipart_body = None, tmp_disk = Healthy, query = [(''id'', fileID)],
      MultipartForm = None\<rparr>"

definition empty_store :: "(stmt \<Rightarrow> bool) \<Rightarrow> DB" where
  "empty_store fails = \<lparr>file_metadata = [], file_chunks = [], failing = fails, journal = []\<rparr>"

text \<open>A store that fails every statement on the chunk of one index, and no other.\<close>

definition fails_chunk :: "int \<Rightarrow> stmt \<Rightarrow> bool" where
  "fails_chunk index q =
     (case q of
        InsertMetadata i f n \<Rightarrow> False
      | InsertChunk i k d \<Rightarrow> k = index
      | SelectMetadata i \<Rightarrow> False
      | SelectChunk i k \<Rightarrow> k = index)"

text \<open>A store on which no statement fails, and one that refuses one given statement.\<close>

definition no_failure :: "stmt \<Rightarrow> bool" where
  "no_failure q = False"

definition fails_only :: "stmt \<Rightarrow> stmt \<Rightarrow> bool" where
  "fails_only q0 q = (q = q0)"

section \<open>Properties of the splitter\<close>

lemma chunks_of_Nil: "chunks_of n [] = []"
  by (simp add: chunks_of.simps)

lemma chunks_of_step: "0 < n \<Longrightarrow> xs \<noteq> [] \<Longrightarrow> chunks_of n xs = take n xs # chunks_of n (drop n xs)"
  by (subst chunks_of.simps) simp

lemma concat_chunks_of: "0 < n \<Longrightarrow> concat (chunks_of n xs) = xs"
proof (induction n xs rule: chunks_of.induct)
  case (1 n xs)
  show ?case
  proof (cases "xs = []")
    case True
    then show ?thesis by (simp add: chunks_of_Nil)
  next
    case False
    with 1 show ?thesis by (simp add: chunks_of_step)
  qed
qed

lemma ceil_div_Suc: "0 < n \<Longrightarrow> 0 < l \<Longrightarrow> (l + n - 1) div n = Suc ((l - 1) div n)"
proof -
  assume n: "0 < n" and l: "0 < l"
  obtain k where k: "l = Suc k" using l by (cases l) auto
  have "(k + n) div n = Suc (k div n)" using n by simp
  then show ?thesis unfolding k by simp
qed

lemma ceil_div_rest:
  assumes "0 < (n::nat)" "0 < (l::nat)"
  shows "(l - n + n - 1) div n = (l - 1) div n"
proof (cases "n \<le> l")
  case True
  then have "l - n + n = l" by simp
  then show ?thesis by simp
next
  case False
  with assms have "l - n + n - 1 < n" "l - 1 < n" by simp_all
  then show ?thesis by simp
qed

lemma length_chunks_of: "0 < n \<Longrightarrow> length (chunks_of n xs) = (length xs + n - 1) div n"
proof (induction n xs rule: chunks_of.induct)
  case (1 n xs)
  show ?case
  proof (cases "xs = []")
    case True
    with 1 show ?thesis by (simp add: chunks_of_Nil)
  next
    case False
    then have pos: "0 < length xs" by simp
    have ih: "length (chunks_of n (drop n xs)) = (length xs - n + n - 1) div n"
      using 1 False by simp
    have "(length xs + n - 1) div n = Suc ((length xs - n + n - 1) div n)"
      using ceil_div_Suc [of n "length xs"] ceil_div_rest [of n "length xs"] pos 1(2)
      by simp
    then show ?thesis using ih False 1(2) by (simp add: chunks_of_step)
  qed
qed


lemma chunks_of_sizes:
  "0 < n \<Longrightarrow> i < length (chunks_of n xs) \<Longrightarrow>
     0 < length (chunks_of n xs ! i) \<and> length (chunks_of n xs ! i) \<le> n \<and>
     (Suc i < length (chunks_of n xs) \<longrightarrow> length (chunks_of n xs ! i) = n)"
proof (induction n xs arbitrary: i rule: chunks_of.induct)
  case (1 n xs)
  show ?case
  proof (cases "xs = []")
    case True
    with 1 show ?thesis by (simp add: chunks_of_Nil)
  next
    case False
    note ne = this
    have st: "chunks_of n xs = take n xs # chunks_of n (drop n xs)"
      using 1 ne by (simp add: chunks_of_step)
    show ?thesis
    proof (cases i)
      case 0
      have "chunks_of n (drop n xs) \<noteq> [] \<Longrightarrow> n \<le> length xs"
        by (cases "n \<le> length xs") (simp_all add: chunks_of_Nil)
      then show ?thesis using 0 st ne 1(2) by (auto simp: min_def)
    next
      case (Suc j)
      then show ?thesis using 1 st ne by simp
    qed
  qed
qed


lemma mergedFile_concat_aux: "foldl (\<lambda>buf chunk. buf @ chunk) acc chunks = acc @ concat chunks"
  by (induction chunks arbitrary: acc) simp_all

lemma mergedFile_concat: "mergedFile chunks = concat chunks"
  by (simp add: mergedFile_def mergedFile_concat_aux)

lemma read_chunks_eq:
  "0 < csz \<Longrightarrow>
   read_chunks csz f acc =
     (if faulty f then Inl EIO else Inr (acc @ chunks_of csz (drop (off f) (data f))))"
proof (induction csz f acc rule: read_chunks.induct)
  case (1 csz f acc)
  show ?case
  proof (cases "length (data f) \<le> off f")
    case True
    then have "Read csz f = (f, [], Some EOF)" by (simp add: Read_def)
    moreover have "\<not> faulty f" using True by (auto simp: faulty_def split: option.splits)
    ultimately show ?thesis using True
      by (subst read_chunks.simps) (simp add: chunks_of_Nil)
  next
    case False
    define p where "p = take csz (drop (off f) (data f))"
    have pne: "p \<noteq> []" using False 1(2) by (simp add: p_def)
    have plen: "off f + length p \<le> length (data f)" using False by (simp add: p_def)
    show ?thesis
    proof (cases "case bad f of None \<Rightarrow> False | Some k \<Rightarrow> off f \<le> k \<and> k < off f + length p")
      case True
      then have "Read csz f = (f, [], Some EIO)"
        using False unfolding p_def by (simp add: Read_def Let_def)
      moreover have "faulty f" using True plen by (auto simp: faulty_def split: option.splits)
      ultimately show ?thesis by (subst read_chunks.simps) simp
    next
      case nf: False
      let ?f' = "f\<lparr>off := off f + length p\<rparr>"
      have rd: "Read csz f = (?f', p, None)"
        using False nf unfolding p_def by (simp add: Read_def Let_def)
      have ih: "read_chunks csz ?f' (acc @ [p]) =
         (if faulty ?f' then Inl EIO else Inr ((acc @ [p]) @ chunks_of csz (drop (off ?f') (data ?f'))))"
        using 1(1)[OF rd [symmetric] refl] pne 1(2) by simp
      have fl: "faulty ?f' = faulty f"
        using nf plen by (auto simp: faulty_def split: option.splits)
      have dr: "drop (off f + length p) (data f) = drop csz (drop (off f) (data f))"
        by (cases "csz \<le> length (data f) - off f") (simp_all add: p_def min_def add.commute)
      have st: "chunks_of csz (drop (off f) (data f)) = p # chunks_of csz (drop csz (drop (off f) (data f)))"
        using False 1(2) by (simp add: chunks_of_step p_def)
      have "read_chunks csz f acc = read_chunks csz ?f' (acc @ [p])"
        using rd pne by (subst read_chunks.simps) simp
      then show ?thesis using ih fl dr st by simp
    qed
  qed
qed


lemma ceiling_div_nat:
  assumes "0 < (c::nat)"
  shows "\<lceil>real l / real c\<rceil> = int ((l + c - 1) div c)"
proof (cases "l = 0")
  case True
  with assms show ?thesis by simp
next
  case False
  define q where "q = (l + c - 1) div c"
  define m where "m = (l + c - 1) mod c"
  have dm: "l + c - 1 = q * c + m" and mlt: "m < c"
    using assms by (simp_all add: q_def m_def)
  have up: "l \<le> q * c" using dm mlt False by linarith
  have lo: "q * c < l + c" using dm assms False by linarith
  have cpos: "0 < real c" using assms by simp
  have "real l \<le> real (q * c)" using up by (simp only: of_nat_le_iff)
  then have le: "real l / real c \<le> real q" using cpos by (simp add: pos_divide_le_eq)
  have "real (q * c) < real (l + c)" using lo by (simp only: of_nat_less_iff)
  then have "real q * real c - real c < real l" by simp
  then have "(real q - 1) * real c < real l" by (simp add: algebra_simps)
  then have gt: "real q - 1 < real l / real c" using cpos by (simp add: pos_less_divide_eq)
  have "\<lceil>real l / real c\<rceil> = int q"
    by (rule ceiling_unique) (use le gt in simp_all)
  then show ?thesis by (simp add: q_def)
qed

section \<open>Properties of the store operations\<close>

subsection \<open>Statements and the store\<close>

lemma Exec_ok:
  "\<not> failing db (InsertMetadata i f n) \<Longrightarrow>
   Exec (InsertMetadata i f n) db =
     (None, db\<lparr>journal := journal db @ [InsertMetadata i f n],
               file_metadata := file_metadata db @ [(i, f, n)]\<rparr>)"
  by (simp add: Exec_def Let_def)

lemma Exec_failing:
  "failing db q \<Longrightarrow> Exec q db = (Some ErrStmt, db\<lparr>journal := journal db @ [q]\<rparr>)"
  by (simp add: Exec_def Let_def)

lemma store_chunk_fields:
  "journal (store_chunk fid (i, c) db) = journal db @ [InsertChunk fid (int i) c]"
  "file_metadata (store_chunk fid (i, c) db) = file_metadata db"
  "failing (store_chunk fid (i, c) db) = failing db"
  "file_chunks (store_chunk fid (i, c) db) =
     file_chunks db @ (if failing db (InsertChunk fid (int i) c) then [] else [(fid, int i, c)])"
  by (simp_all add: store_chunk_def Exec_def Let_def)

lemma fold_store_chunk_failing:
  "failing (fold (store_chunk fid) ts db) = failing db"
  by (induction ts arbitrary: db) (auto simp: store_chunk_fields)

lemma fold_store_chunk_metadata:
  "file_metadata (fold (store_chunk fid) ts db) = file_metadata db"
  by (induction ts arbitrary: db) (auto simp: store_chunk_fields)

lemma fold_store_chunk_journal:
  "journal (fold (store_chunk fid) ts db) =
     journal db @ map (\<lambda>(i, c). InsertChunk fid (int i) c) ts"
  by (induction ts arbitrary: db) (auto simp: store_chunk_fields)

lemma fold_store_chunk_chunks:
  "file_chunks (fold (store_chunk fid) ts db) =
     file_chunks db @ map (\<lambda>(i, c). (fid, int i, c))
       (filter (\<lambda>(i, c). \<not> failing db (InsertChunk fid (int i) c)) ts)"
  by (induction ts arbitrary: db) (auto simp: store_chunk_fields fold_store_chunk_failing)

lemma last_states_from: "last (states_from step xs s) = fold step xs s"
  by (induction xs arbitrary: s) (auto split: list.splits, (case_tac xs; simp)+)

lemma states_from_ne: "states_from step xs s \<noteq> []"
  by (cases xs) simp_all

lemma length_states_from: "length (states_from step xs s) = Suc (length xs)"
  by (induction xs arbitrary: s) simp_all

lemma hd_states_from: "states_from step xs s ! 0 = s"
  by (cases xs) simp_all

subsection \<open>Reading chunks back\<close>

lemma QueryRow_chunk_fields:
  "journal (snd (QueryRow_chunk fid k db)) = journal db @ [SelectChunk fid k]"
  "file_metadata (snd (QueryRow_chunk fid k db)) = file_metadata db"
  "file_chunks (snd (QueryRow_chunk fid k db)) = file_chunks db"
  "failing (snd (QueryRow_chunk fid k db)) = failing db"
  by (simp_all add: QueryRow_chunk_def Let_def split: option.splits)

lemma fst_QueryRow_chunk_cong:
  "file_chunks db' = file_chunks db \<Longrightarrow> failing db' = failing db \<Longrightarrow>
   fst (QueryRow_chunk fid k db') = fst (QueryRow_chunk fid k db)"
  by (simp add: QueryRow_chunk_def Let_def find_chunk_def split: option.splits)

lemma fetch_chunk_eq:
  "fetch_chunk fid i (slots, db) =
     (case fst (QueryRow_chunk fid (int i) db) of Inl e \<Rightarrow> slots | Inr d \<Rightarrow> slots[i := d],
      snd (QueryRow_chunk fid (int i) db))"
  by (cases "QueryRow_chunk fid (int i) db") (auto simp: fetch_chunk_def split: sum.splits)

lemma fold_fetch_chunk:
  "fold (fetch_chunk fid) xs (slots, db) = (slots', db') \<Longrightarrow>
     length slots' = length slots
   \<and> file_chunks db' = file_chunks db \<and> failing db' = failing db
   \<and> file_metadata db' = file_metadata db
   \<and> journal db' = journal db @ map (\<lambda>i. SelectChunk fid (int i)) xs
   \<and> (\<forall>i<length slots. slots' ! i =
         (if i \<in> set xs
          then (case fst (QueryRow_chunk fid (int i) db) of Inl e \<Rightarrow> slots ! i | Inr d \<Rightarrow> d)
          else slots ! i))"
proof (induction xs arbitrary: slots db)
  case Nil
  then show ?case by simp
next
  case (Cons x xs)
  let ?s1 = "case fst (QueryRow_chunk fid (int x) db) of Inl e \<Rightarrow> slots | Inr d \<Rightarrow> slots[x := d]"
  let ?d1 = "snd (QueryRow_chunk fid (int x) db)"
  from Cons.prems have "fold (fetch_chunk fid) xs (?s1, ?d1) = (slots', db')"
    by (simp add: fetch_chunk_eq)
  from Cons.IH [OF this] have ih:
    "length slots' = length ?s1"
    "file_chunks db' = file_chunks ?d1" "failing db' = failing ?d1"
    "file_metadata db' = file_metadata ?d1"
    "journal db' = journal ?d1 @ map (\<lambda>i. SelectChunk fid (int i)) xs"
    "\<forall>i<length ?s1. slots' ! i =
         (if i \<in> set xs
          then (case fst (QueryRow_chunk fid (int i) ?d1) of Inl e \<Rightarrow> ?s1 ! i | Inr d \<Rightarrow> d)
          else ?s1 ! i)"
    by blast+
  have len: "length ?s1 = length slots" by (simp split: sum.splits)
  have cong: "\<And>k. fst (QueryRow_chunk fid k ?d1) = fst (QueryRow_chunk fid k db)"
    by (rule fst_QueryRow_chunk_cong) (simp_all add: QueryRow_chunk_fields)
  have s1: "\<And>i. i < length slots \<Longrightarrow> ?s1 ! i =
      (if i = x then (case fst (QueryRow_chunk fid (int i) db) of Inl e \<Rightarrow> slots ! i | Inr d \<Rightarrow> d)
       else slots ! i)"
    by (simp split: sum.splits)
  have "\<forall>i<length slots. slots' ! i =
         (if i \<in> set (x # xs)
          then (case fst (QueryRow_chunk fid (int i) db) of Inl e \<Rightarrow> slots ! i | Inr d \<Rightarrow> d)
          else slots ! i)"
  proof (intro allI impI)
    fix i assume i: "i < length slots"
    then have "slots' ! i =
         (if i \<in> set xs
          then (case fst (QueryRow_chunk fid (int i) db) of Inl e \<Rightarrow> ?s1 ! i | Inr d \<Rightarrow> d)
          else ?s1 ! i)"
      using ih(6) len cong by simp
    then show "slots' ! i =
         (if i \<in> set (x # xs)
          then (case fst (QueryRow_chunk fid (int i) db) of Inl e \<Rightarrow> slots ! i | Inr d \<Rightarrow> d)
          else slots ! i)"
      using s1 [OF i] by (auto split: sum.splits)
  qed
  then show ?case using ih len by (simp add: QueryRow_chunk_fields)
qed

section \<open>Arrival orders\<close>

text \<open>
  Every order in which the goroutines of the indices \<open>0, ..., n - 1\<close> can reach the store
  is the order \<open>sort_key finish [0..<n]\<close> of some \<open>finish\<close>; the chunk writes of an upload
  arrive in this order of their indices.
\<close>

lemma position_nth:
  assumes "distinct xs" "i < length xs"
  shows "position xs (xs ! i) = i"
proof -
  have "takeWhile (\<lambda>x. x \<noteq> xs ! i) xs = take i xs"
  proof (rule takeWhile_eq_take_P_nth)
    fix j assume "j < i" "j < length xs"
    then show "xs ! j \<noteq> xs ! i"
      using assms by (simp add: nth_eq_iff_index_eq)
  next
    show "\<not> xs ! i \<noteq> xs ! i" by simp
  qed
  then show ?thesis using assms(2) by (simp add: position_def)
qed

lemma map_position: "distinct xs \<Longrightarrow> map (position xs) xs = [0..<length xs]"
  by (rule nth_equalityI) (simp_all add: position_nth)

lemma every_order_scheduled:
  assumes "distinct xs" and "set xs = {0..<n}"
  shows "sort_key (position xs) [0..<n] = xs"
proof -
  let ?f = "position xs"
  let ?ys = "sort_key ?f [0..<n]"
  have inj: "inj_on ?f (set xs)"
  proof (rule inj_onI)
    fix a b assume "a \<in> set xs" "b \<in> set xs" "?f a = ?f b"
    then obtain i j where "i < length xs" "a = xs ! i" "j < length xs" "b = xs ! j"
      by (auto simp: in_set_conv_nth)
    with \<open>?f a = ?f b\<close> show "a = b" using assms(1) by (simp add: position_nth)
  qed
  have sy: "set ?ys = set xs" using assms(2) by simp
  have dy: "distinct ?ys" by simp
  have "sorted (map ?f ?ys)" by (rule sorted_sort_key)
  moreover have "distinct (map ?f ?ys)"
    using inj sy dy by (simp add: distinct_map)
  moreover have "sorted (map ?f xs)" "distinct (map ?f xs)"
    using assms(1) by (simp_all add: map_position)
  moreover have "set (map ?f ?ys) = set (map ?f xs)" using sy by simp
  ultimately have "map ?f ?ys = map ?f xs"
    by (rule sorted_distinct_set_unique)
  moreover have "inj_on ?f (set ?ys \<union> set xs)" using inj sy by simp
  ultimately show ?thesis by (simp add: inj_on_map_eq_map)
qed

lemma insort_key_map:
  "insort_key f (g x) (map g ys) = map g (insort_key (\<lambda>y. f (g y)) x ys)"
  by (induction ys) simp_all

lemma sort_key_map:
  "sort_key f (map g xs) = map g (sort_key (\<lambda>y. f (g y)) xs)"
  by (induction xs) (simp_all add: insort_key_map)

lemma enumerate_as_map:
  "enumerate 0 chunks = map (\<lambda>i. (i, chunks ! i)) [0..<length chunks]"
  by (rule nth_equalityI) (simp_all add: nth_enumerate_eq)

lemma upload_order:
  "sort_key (\<lambda>(index, chunk). finish index) (enumerate 0 chunks) =
     map (\<lambda>i. (i, chunks ! i)) (sort_key finish [0..<length chunks])"
  by (simp add: enumerate_as_map sort_key_map)

section \<open>Properties of the handlers\<close>

lemma Base_plain: "path \<noteq> [] \<Longrightarrow> CHR ''/'' \<notin> set path \<Longrightarrow> Base path = path"
proof -
  assume ne: "path \<noteq> []" and plain: "CHR ''/'' \<notin> set path"
  have d: "dropWhile (\<lambda>c. c = CHR ''/'') (rev path) = rev path"
    using ne plain by (cases "rev path") auto
  have t: "takeWhile (\<lambda>c. c \<noteq> CHR ''/'') (rev path) = rev path"
    using plain by (intro takeWhile_eq_all_conv [THEN iffD2]) auto
  show ?thesis using ne by (simp add: Base_def d t)
qed

lemma FormFile_form_request:
  "fname \<noteq> [] \<Longrightarrow> CHR ''/'' \<notin> set fname \<Longrightarrow>
   FormFile (fst (ParseMultipartForm m (form_request fname bytes))) ''file'' =
     Inr (\<lparr>data = bytes, off = 0, bad = None\<rparr>,
          \<lparr>Filename = fname, Size = length bytes, content = bytes,
           tmpfile = (if m < length bytes then Some Healthy else None)\<rparr>)"
  by (simp add: FormFile_def ParseMultipartForm_def form_request_def Open_def Let_def
        FileName_def Base_plain)

lemma Base_examples:
  "Base ''dir/a.txt'' = ''a.txt''" "Base ''a//'' = ''a''" "Base ''/'' = ''/''"
  by (simp_all add: Base_def)

lemma FormFile_value_part:
  "FormFile (fst (ParseMultipartForm m (form_request [] bytes))) ''file'' = Inl ErrMissingFile"
  by (simp add: FormFile_def ParseMultipartForm_def form_request_def Let_def FileName_def)

lemma FormFile_too_many_parts:
  "multipart_body r = Some ps \<Longrightarrow> 1000 < length ps \<Longrightarrow> MultipartForm r = None \<Longrightarrow>
   FormFile (fst (ParseMultipartForm m r)) key = Inl ErrMessageTooLarge"
  by (simp add: FormFile_def ParseMultipartForm_def Let_def)

lemma upload_rejected:
  "FormFile (fst (ParseMultipartForm (10 * 2 ^ 20) r)) ''file'' = Inl e \<Longrightarrow>
   uploadFileHandler fid finish r db = (http_Error ''Error retrieving file'' 400, db)"
  by (simp add: uploadFileHandler_def)

lemma upload_read_failed:
  "FormFile (fst (ParseMultipartForm (10 * 2 ^ 20) r)) ''file'' = Inr (f, h) \<Longrightarrow>
   read_chunks chunkSize f [] = Inl e \<Longrightarrow>
   uploadFileHandler fid finish r db = (http_Error ''Error reading file'' 500, db)"
  by (simp add: uploadFileHandler_def)

lemma upload_metadata_failed:
  "FormFile (fst (ParseMultipartForm (10 * 2 ^ 20) r)) ''file'' = Inr (f, h) \<Longrightarrow>
   read_chunks chunkSize f [] = Inr chunks \<Longrightarrow>
   failing db (InsertMetadata fid (Filename h) (int (length chunks))) \<Longrightarrow>
   uploadFileHandler fid finish r db =
     (http_Error ''Error storing file metadata'' 500,
      db\<lparr>journal := journal db @ [InsertMetadata fid (Filename h) (int (length chunks))]\<rparr>)"
  by (simp add: uploadFileHandler_def Exec_failing)

lemma upload_stored:
  "FormFile (fst (ParseMultipartForm (10 * 2 ^ 20) r)) ''file'' = Inr (f, h) \<Longrightarrow>
   read_chunks chunkSize f [] = Inr chunks \<Longrightarrow>
   \<not> failing db (InsertMetadata fid (Filename h) (int (length chunks))) \<Longrightarrow>
   uploadFileHandler fid finish r db =
     (\<lparr>status = 200, headers = [], body = ''File uploaded successfully with ID: '' @ fid\<rparr>,
      fold (store_chunk fid) (sort_key (\<lambda>(index, chunk). finish index) (enumerate 0 chunks))
        (db\<lparr>journal := journal db @ [InsertMetadata fid (Filename h) (int (length chunks))],
            file_metadata := file_metadata db @ [(fid, Filename h, int (length chunks))]\<rparr>))"
  by (simp add: uploadFileHandler_def Exec_ok)

lemma upload_states_stored:
  "FormFile (fst (ParseMultipartForm (10 * 2 ^ 20) r)) ''file'' = Inr (f, h) \<Longrightarrow>
   read_chunks chunkSize f [] = Inr chunks \<Longrightarrow>
   \<not> failing db (InsertMetadata fid (Filename h) (int (length chunks))) \<Longrightarrow>
   uploadFileHandler_states fid finish r db =
     db # states_from (store_chunk fid)
        (sort_key (\<lambda>(index, chunk). finish index) (enumerate 0 chunks))
        (db\<lparr>journal := journal db @ [InsertMetadata fid (Filename h) (int (length chunks))],
            file_metadata := file_metadata db @ [(fid, Filename h, int (length chunks))]\<rparr>)"
  by (simp add: uploadFileHandler_states_def Exec_ok)

lemma upload_states_last:
  "last (uploadFileHandler_states fid finish r db) = snd (uploadFileHandler fid finish r db)"
  by (simp add: uploadFileHandler_states_def uploadFileHandler_def Let_def last_states_from
        states_from_ne split: sum.splits prod.splits option.splits)

lemma read_chunks_empty: "data f = [] \<Longrightarrow> read_chunks csz f [] = Inr []"
  by (subst read_chunks.simps) (simp add: Read_def)

lemma slot_after_read_QueryRow:
  "(case fst (QueryRow_chunk fid (int i) db) of Inl e \<Rightarrow> [] | Inr d \<Rightarrow> d)
     = slot_after_read fid db i"
  by (simp add: QueryRow_chunk_def find_chunk_def slot_after_read_def Let_def
        split: list.splits prod.splits)

lemma int32_small: "0 \<le> x \<Longrightarrow> x < 2 ^ 31 \<Longrightarrow> int32 x = x"
  by (simp add: int32_def)

lemma wg_Add_small: "0 \<le> n \<Longrightarrow> n < 2 ^ 31 \<Longrightarrow> wg_Add 0 n = Some n"
  by (simp add: wg_Add_def int32_small)

lemma wg_Done_positive: "0 < c \<Longrightarrow> c < 2 ^ 31 \<Longrightarrow> wg_Done c = Some (c - 1)"
  by (simp add: wg_Done_def wg_Add_def int32_small)

lemma wg_Done_zero: "wg_Done 0 = None"
  by (simp add: wg_Done_def wg_Add_def int32_def)

lemma make_chunks_small:
  "0 \<le> n \<Longrightarrow> n < 2 ^ 31 \<Longrightarrow> make_chunks n = Some (replicate (nat n) [])"
  by (simp add: make_chunks_def maxAlloc_def)

lemma fold_chunk_reader:
  "int (length xs) \<le> c \<Longrightarrow> c < 2 ^ 31 \<Longrightarrow>
   fold (chunk_reader fid) xs (slots, db, Some c) =
     (fst (fold (fetch_chunk fid) xs (slots, db)),
      snd (fold (fetch_chunk fid) xs (slots, db)),
      Some (c - int (length xs)))"
proof (induction xs arbitrary: slots db c)
  case Nil
  then show ?case by simp
next
  case (Cons x xs)
  obtain s' d' where f: "fetch_chunk fid x (slots, db) = (s', d')"
    by (cases "fetch_chunk fid x (slots, db)")
  have pos: "0 < c" using Cons.prems(1) by simp
  have step: "chunk_reader fid x (slots, db, Some c) = (s', d', Some (c - 1))"
    using f wg_Done_positive [OF pos Cons.prems(2)] by (simp add: chunk_reader_def)
  have "int (length xs) \<le> c - 1" "c - 1 < 2 ^ 31" using Cons.prems by simp_all
  from Cons.IH [OF this] show ?case by (simp add: step f)
qed

lemma fold_chunk_reader_ended:
  "fold (chunk_reader fid) xs (slots, db, None) = (slots, db, None)"
  by (induction xs) (simp_all add: chunk_reader_def)

lemma fold_chunk_reader_crash:
  "0 \<le> c \<Longrightarrow> c < 2 ^ 31 \<Longrightarrow> c < int (length xs) \<Longrightarrow>
   snd (snd (fold (chunk_reader fid) xs (slots, db, Some c))) = None"
proof (induction xs arbitrary: slots db c)
  case Nil
  then show ?case by simp
next
  case (Cons x xs)
  obtain s' d' where f: "fetch_chunk fid x (slots, db) = (s', d')"
    by (cases "fetch_chunk fid x (slots, db)")
  show ?case
  proof (cases "c = 0")
    case True
    then have "chunk_reader fid x (slots, db, Some c) = (s', d', None)"
      using f by (simp add: chunk_reader_def wg_Done_zero)
    then show ?thesis by (simp add: fold_chunk_reader_ended)
  next
    case False
    then have pos: "0 < c" using Cons.prems(1) by simp
    have step: "chunk_reader fid x (slots, db, Some c) = (s', d', Some (c - 1))"
      using f wg_Done_positive [OF pos Cons.prems(2)] by (simp add: chunk_reader_def)
    have "0 \<le> c - 1" "c - 1 < 2 ^ 31" "c - 1 < int (length xs)"
      using pos Cons.prems by simp_all
    from Cons.IH [OF this] show ?thesis by (simp add: step)
  qed
qed

lemma QueryRow_metadata_found:
  assumes "\<not> failing db (SelectMetadata fid)"
    and "filter (\<lambda>(i, f, n). i = fid) (file_metadata db) = (i0, fname, N) # rows"
    and "- (2 ^ 63) \<le> N" and "N < 2 ^ 63"
  shows "QueryRow_metadata fid db =
           (Inr (fname, N), db\<lparr>journal := journal db @ [SelectMetadata fid]\<rparr>)"
  using assms by (simp add: QueryRow_metadata_def find_metadata_def Let_def)

lemma download_found:
  assumes "Get (query r) ''id'' = fid" "fid \<noteq> []"
    and "\<not> failing db (SelectMetadata fid)"
    and "filter (\<lambda>(i, f, n). i = fid) (file_metadata db) = (i0, fname, N) # rows"
    and "0 \<le> N" "N < 2 ^ 31"
  shows "fst (downloadFileHandler finish r db) =
     Sent \<lparr>status = 200,
           headers = [(''Content-Disposition'', ''attachment; filename='' @ fname)],
           body = concat (map (slot_after_read fid db) [0..<nat N])\<rparr>"
proof -
  let ?db1 = "db\<lparr>journal := journal db @ [SelectMetadata fid]\<rparr>"
  let ?order = "sort_key finish [0..<nat N]"
  have q: "QueryRow_metadata fid db = (Inr (fname, N), ?db1)"
    using assms(3,4,5,6) by (intro QueryRow_metadata_found) simp_all
  have db1: "file_chunks ?db1 = file_chunks db" "failing ?db1 = failing db"
    by simp_all
  obtain slots db2 where
    fd: "fold (fetch_chunk fid) ?order (replicate (nat N) [], ?db1) = (slots, db2)"
    by (cases "fold (fetch_chunk fid) ?order (replicate (nat N) [], ?db1)")
  from fold_fetch_chunk [OF fd] have len: "length slots = nat N"
    and sl: "\<forall>i<nat N. slots ! i =
         (if i \<in> set ?order
          then (case fst (QueryRow_chunk fid (int i) ?db1) of
                  Inl e \<Rightarrow> replicate (nat N) [] ! i | Inr d \<Rightarrow> d)
          else replicate (nat N) [] ! i)"
    by simp_all
  have "\<And>i. i < nat N \<Longrightarrow> slots ! i =
      (case fst (QueryRow_chunk fid (int i) db) of Inl e \<Rightarrow> [] | Inr d \<Rightarrow> d)"
    using sl by (simp add: fst_QueryRow_chunk_cong [OF db1] split: sum.splits)
  then have "\<And>i. i < nat N \<Longrightarrow> slots ! i = slot_after_read fid db i"
    by (simp only: slot_after_read_QueryRow)
  then have slots: "slots = map (slot_after_read fid db) [0..<nat N]"
    using len by (intro nth_equalityI) simp_all
  have lo: "int (length ?order) \<le> N" using assms(5) by simp
  have run: "fold (chunk_reader fid) ?order (replicate (nat N) [], ?db1, Some N) =
      (slots, db2, Some 0)"
    using fold_chunk_reader [OF lo assms(6), of fid "replicate (nat N) []" ?db1] fd assms(5)
    by simp
  show ?thesis
    using assms(1,2)
    by (simp add: downloadFileHandler_def Let_def q wg_Add_small [OF assms(5,6)]
          make_chunks_small [OF assms(5,6)] run mergedFile_concat slots)
qed

lemma download_never_blocked: "fst (downloadFileHandler finish r db) \<noteq> Blocked"
proof -
  let ?fid = "Get (query r) ''id''"
  show ?thesis
  proof (cases "?fid = []")
    case True
    then show ?thesis by (simp add: downloadFileHandler_def)
  next
    case ne: False
    obtain res db1 where q: "QueryRow_metadata ?fid db = (res, db1)"
      by (cases "QueryRow_metadata ?fid db")
    show ?thesis
    proof (cases res)
      case (Inl e)
      then show ?thesis using ne q by (simp add: downloadFileHandler_def)
    next
      case (Inr row)
      obtain fname N where row: "row = (fname, N)" by (cases row)
      show ?thesis
      proof (cases "wg_Add 0 N")
        case None
        then show ?thesis using ne q Inr row by (simp add: downloadFileHandler_def)
      next
        case (Some v)
        then have v: "v = int32 N" "0 \<le> v" "v < 2 ^ 31"
          by (auto simp: wg_Add_def int32_def Let_def split: if_splits)
        show ?thesis
        proof (cases "make_chunks N")
          case None
          then show ?thesis using ne q Inr row Some by (simp add: downloadFileHandler_def)
        next
          case mk: (Some chunks0)
          then have n0: "0 \<le> N" by (simp add: make_chunks_def split: if_splits)
          have "N mod 2 ^ 32 \<le> N" using n0 by (rule zmod_le_nonneg_dividend)
          then have vN: "v \<le> N" using v(1,2) by (auto simp: int32_def Let_def split: if_splits)
          let ?order = "sort_key finish [0..<nat N]"
          obtain chunks db2 wg where
            run: "fold (chunk_reader ?fid) ?order (chunks0, db1, Some v) = (chunks, db2, wg)"
            by (cases "fold (chunk_reader ?fid) ?order (chunks0, db1, Some v)")
          have "wg = None \<or> wg = Some 0"
          proof (cases "v = N")
            case True
            have "int (length ?order) \<le> v" using True n0 by simp
            from fold_chunk_reader [OF this v(3), of ?fid chunks0 db1] run True n0
            show ?thesis by simp
          next
            case False
            then have "v < int (length ?order)" using vN n0 by simp
            from fold_chunk_reader_crash [OF v(2,3) this, of ?fid chunks0 db1] run
            show ?thesis by simp
          qed
          then show ?thesis
            using ne q Inr row Some mk run
            by (auto simp: downloadFileHandler_def)
        qed
      qed
    qed
  qed
qed

lemma download_counter_overflow:
  "fst (downloadFileHandler finish (download_request ''f1'')
      \<lparr>file_metadata = [(''f1'', ''a.txt'', 2 ^ 31)], file_chunks = [],
       failing = no_failure, journal = []\<rparr>) = Panicked"
  by (simp add: downloadFileHandler_def download_request_def Get_def QueryRow_metadata_def
        find_metadata_def no_failure_def Let_def wg_Add_def int32_def)

lemma read_chunks_one:
  "bytes \<noteq> [] \<Longrightarrow> length bytes \<le> chunkSize \<Longrightarrow>
   read_chunks chunkSize \<lparr>data = bytes, off = 0, bad = None\<rparr> [] = Inr [bytes]"
proof -
  assume ne: "bytes \<noteq> []" and le: "length bytes \<le> chunkSize"
  have pos: "0 < chunkSize" by (simp add: chunkSize_def)
  have "chunks_of chunkSize bytes = [bytes]"
    using pos ne le by (subst chunks_of_step) (simp_all add: chunks_of_Nil)
  then show ?thesis
    by (simp add: read_chunks_eq [OF pos] faulty_def)
qed

lemma read_chunks_two:
  "read_chunks chunkSize \<lparr>data = replicate chunkSize CHR ''a'' @ ''b'', off = 0, bad = None\<rparr> []
     = Inr [replicate chunkSize CHR ''a'', ''b'']"
proof -
  have pos: "0 < chunkSize" by (simp add: chunkSize_def)
  have "chunks_of chunkSize (replicate chunkSize CHR ''a'' @ ''b'')
          = replicate chunkSize CHR ''a'' # chunks_of chunkSize ''b''"
    using pos by (subst chunks_of_step) simp_all
  also have "chunks_of chunkSize ''b'' = [''b'']"
    using pos by (subst chunks_of_step) (simp_all add: chunks_of_Nil)
  finally show ?thesis
    by (simp add: read_chunks_eq [OF pos] faulty_def)
qed

lemma no_metadata_row:
  "fid \<notin> fst ` set (file_metadata db) \<Longrightarrow> find_metadata fid db = None"
proof -
  assume "fid \<notin> fst ` set (file_metadata db)"
  then have "filter (\<lambda>(i, f, n). i = fid) (file_metadata db) = []"
    by (force simp: filter_empty_conv)
  then show ?thesis by (simp add: find_metadata_def)
qed

lemma states_from_fold:
  "s \<in> set (states_from step xs s0) \<Longrightarrow> \<exists>k\<le>length xs. s = fold step (take k xs) s0"
proof (induction xs arbitrary: s0)
  case Nil
  then show ?case by simp
next
  case (Cons x xs)
  from Cons.prems have "s = s0 \<or> s \<in> set (states_from step xs (step x s0))" by simp
  then show ?case
  proof
    assume "s = s0"
    then show ?thesis by (intro exI [of _ 0]) simp
  next
    assume "s \<in> set (states_from step xs (step x s0))"
    from Cons.IH [OF this] obtain k where "k \<le> length xs" "s = fold step (take k xs) (step x s0)"
      by blast
    then show ?thesis by (intro exI [of _ "Suc k"]) simp
  qed
qed

lemma persisted_chunks_fold:
  "persisted_chunks fid (fold (store_chunk fid) ts db) =
     persisted_chunks fid db
       + length (filter (\<lambda>(i, c). \<not> failing db (InsertChunk fid (int i) c)) ts)"
proof -
  have "filter (\<lambda>(i, k, d). i = fid)
          (map (\<lambda>(i, c). (fid, int i, c))
             (filter (\<lambda>(i, c). \<not> failing db (InsertChunk fid (int i) c)) ts))
        = map (\<lambda>(i, c). (fid, int i, c))
             (filter (\<lambda>(i, c). \<not> failing db (InsertChunk fid (int i) c)) ts)"
    by (rule filter_True) auto
  then show ?thesis
    by (simp add: persisted_chunks_def fold_store_chunk_chunks)
qed

lemma find_metadata_fold:
  "find_metadata fid (fold (store_chunk fid') ts db) = find_metadata fid db"
  by (simp add: find_metadata_def fold_store_chunk_metadata)

lemma no_chunk_row:
  "fid \<notin> fst ` set (file_chunks db) \<Longrightarrow> persisted_chunks fid db = 0"
  by (force simp: persisted_chunks_def filter_empty_conv)

lemma find_metadata_appended:
  "find_metadata fid db = None \<Longrightarrow>
   find_metadata fid (db\<lparr>journal := js, file_metadata := file_metadata db @ [(fid, fname, n)]\<rparr>)
     = Some (fname, n)"
  by (auto simp: find_metadata_def split: list.splits prod.splits)

lemma upload_small_run:
  "uploadFileHandler ''id'' id (form_request ''a.txt'' ''hello'') (empty_store no_failure) =
     (\<lparr>status = 200, headers = [], body = ''File uploaded successfully with ID: id''\<rparr>,
      \<lparr>file_metadata = [(''id'', ''a.txt'', 1)], file_chunks = [(''id'', 0, ''hello'')],
       failing = no_failure,
       journal = [InsertMetadata ''id'' ''a.txt'' 1, InsertChunk ''id'' 0 ''hello'']\<rparr>)"
proof -
  have ff: "FormFile (fst (ParseMultipartForm (10 * 2 ^ 20) (form_request ''a.txt'' ''hello''))) ''file'' =
     Inr (\<lparr>data = ''hello'', off = 0, bad = None\<rparr>,
          \<lparr>Filename = ''a.txt'', Size = 5, content = ''hello'', tmpfile = None\<rparr>)"
    by (simp add: FormFile_form_request)
  have rd: "read_chunks chunkSize \<lparr>data = ''hello'', off = 0, bad = None\<rparr> [] = Inr [''hello'']"
    by (rule read_chunks_one) (simp_all add: chunkSize_def)
  have ok: "\<not> failing (empty_store no_failure) (InsertMetadata ''id''
      (Filename \<lparr>Filename = ''a.txt'', Size = 5, content = ''hello'', tmpfile = None\<rparr>)
      (int (length [''hello''])))"
    by (simp add: empty_store_def no_failure_def)
  show ?thesis
    unfolding upload_stored [OF ff rd ok]
    by (simp add: empty_store_def store_chunk_def Exec_def Let_def no_failure_def)
qed

lemma upload_small_run_refused:
  "uploadFileHandler ''id'' id (form_request ''a.txt'' ''hello'')
      (empty_store (fails_only (InsertMetadata ''id'' ''a.txt'' 1))) =
     (\<lparr>status = 500,
       headers = [(''Content-Type'', ''text/plain; charset=utf-8''),
                  (''X-Content-Type-Options'', ''nosniff'')],
       body = ''Error storing file metadata'' @ [CHR 0x0A]\<rparr>,
      \<lparr>file_metadata = [], file_chunks = [],
       failing = fails_only (InsertMetadata ''id'' ''a.txt'' 1),
       journal = [InsertMetadata ''id'' ''a.txt'' 1]\<rparr>)"
proof -
  have ff: "FormFile (fst (ParseMultipartForm (10 * 2 ^ 20) (form_request ''a.txt'' ''hello''))) ''file'' =
     Inr (\<lparr>data = ''hello'', off = 0, bad = None\<rparr>,
          \<lparr>Filename = ''a.txt'', Size = 5, content = ''hello'', tmpfile = None\<rparr>)"
    by (simp add: FormFile_form_request)
  have rd: "read_chunks chunkSize \<lparr>data = ''hello'', off = 0, bad = None\<rparr> [] = Inr [''hello'']"
    by (rule read_chunks_one) (simp_all add: chunkSize_def)
  have bad: "failing (empty_store (fails_only (InsertMetadata ''id'' ''a.txt'' 1))) (InsertMetadata ''id''
      (Filename \<lparr>Filename = ''a.txt'', Size = 5, content = ''hello'', tmpfile = None\<rparr>)
      (int (length [''hello''])))"
    by (simp add: empty_store_def fails_only_def)
  show ?thesis
    unfolding upload_metadata_failed [OF ff rd bad]
    by (simp add: empty_store_def http_Error_def)
qed

section \<open>The claims\<close>

text \<open>
  C1. For every byte sequence \<open>F\<close> of length \<open>L\<close> and every chunk size \<open>C > 0\<close>, the read
  loop of the upload handler, run on a file holding \<open>F\<close>, yields \<open>ceil(L / C)\<close> chunks
  (none when \<open>L = 0\<close>), and the merge loop of the download handler, run on these chunks
  in index order, gives back \<open>F\<close>.
\<close>

theorem split_merge_roundtrip:
  "0 < C \<Longrightarrow>
   \<exists>chunks. read_chunks C \<lparr>data = F, off = 0, bad = None\<rparr> [] = Inr chunks
      \<and> int (length chunks) = \<lceil>real (length F) / real C\<rceil>
      \<and> mergedFile chunks = F
      \<and> read_chunks C \<lparr>data = [], off = 0, bad = None\<rparr> [] = Inr []"
  by (simp add: read_chunks_eq faulty_def length_chunks_of ceiling_div_nat
        mergedFile_concat concat_chunks_of chunks_of_Nil)

theorem split_merge_roundtrip_witness:
  "(0::nat) < 2 \<and>
   read_chunks 2 \<lparr>data = ''abcde'', off = 0, bad = None\<rparr> [] = Inr [''ab'', ''cd'', ''e'']
   \<and> int (length [''ab'', ''cd'', ''e'']) = \<lceil>real (length ''abcde'') / real (2::nat)\<rceil>
   \<and> mergedFile [''ab'', ''cd'', ''e''] = ''abcde''
   \<and> read_chunks 2 \<lparr>data = [], off = 0, bad = None\<rparr> [] = Inr []"
proof -
  have rd: "read_chunks 2 \<lparr>data = ''abcde'', off = 0, bad = None\<rparr> [] = Inr [''ab'', ''cd'', ''e'']"
    by (simp add: read_chunks_eq faulty_def chunks_of_step chunks_of_Nil)
  from split_merge_roundtrip [of 2 "''abcde''"] rd show ?thesis
    by simp
qed

text \<open>
  C6. For every input file, whatever its offset and condition, every chunk the read loop
  produces with the handler's buffer of \<open>chunkSize = 2^20\<close> bytes is non-empty and at most
  \<open>2^20\<close> bytes long, and every chunk but the last is exactly \<open>2^20\<close> bytes long.
\<close>

theorem chunk_sizes:
  "read_chunks chunkSize f [] = Inr chunks \<Longrightarrow> i < length chunks \<Longrightarrow>
     0 < length (chunks ! i) \<and> length (chunks ! i) \<le> 2 ^ 20 \<and>
     (i + 1 < length chunks \<longrightarrow> length (chunks ! i) = 2 ^ 20)"
proof -
  assume rd: "read_chunks chunkSize f [] = Inr chunks" and i: "i < length chunks"
  have pos: "0 < chunkSize" by (simp add: chunkSize_def)
  from rd have "chunks = chunks_of chunkSize (drop (off f) (data f))"
    by (simp add: read_chunks_eq [OF pos] split: if_splits)
  with chunks_of_sizes [OF pos, of i "drop (off f) (data f)"] i show ?thesis
    by (simp add: chunkSize_def)
qed

theorem chunk_sizes_witness:
  "read_chunks chunkSize \<lparr>data = replicate chunkSize CHR ''a'' @ ''b'', off = 0, bad = None\<rparr> []
     = Inr [replicate chunkSize CHR ''a'', ''b'']
   \<and> (0::nat) < length [replicate chunkSize CHR ''a'', ''b'']
   \<and> 0 + 1 < length [replicate chunkSize CHR ''a'', ''b'']
   \<and> length ([replicate chunkSize CHR ''a'', ''b''] ! 0) = 2 ^ 20
   \<and> 0 < length ([replicate chunkSize CHR ''a'', ''b''] ! 1)"
proof -
  let ?cs = "[replicate chunkSize CHR ''a'', ''b'']"
  note rd = read_chunks_two
  have i0: "(0::nat) < length ?cs" and i1: "(1::nat) < length ?cs" by simp_all
  from chunk_sizes [OF rd i0] chunk_sizes [OF rd i1] rd show ?thesis
    by simp
qed

text \<open>
  C2. For every download of an id whose FileRecord, found by the lookup, declares \<open>N\<close>
  chunks with \<open>0 \<le> N < 2^31\<close>, and for every order in which the reads reach the store,
  the body sent is the concatenation, for the indices \<open>0, ..., N - 1\<close> in this order, of
  the data the rows of \<open>file_chunks\<close> hold for the id and the index; an index whose read
  fails or which has no row contributes no byte. The bound on \<open>N\<close> is that of the
  counter of the WaitGroup: from \<open>2^31\<close> on, \<open>wg.Add\<close> panics and no body is sent.
\<close>

theorem download_concatenates_in_index_order:
  assumes "Get (query r) ''id'' = fid" and "fid \<noteq> []"
    and "\<not> failing db (SelectMetadata fid)"
    and "filter (\<lambda>(i, f, n). i = fid) (file_metadata db) = (i0, fname, N) # rows"
    and "0 \<le> N" and "N < 2 ^ 31"
  shows "fst (downloadFileHandler finish r db) =
     Sent \<lparr>status = 200,
           headers = [(''Content-Disposition'', ''attachment; filename='' @ fname)],
           body = concat (map (\<lambda>index.
                    if failing db (SelectChunk fid (int index)) then []
                    else
                      (case filter (\<lambda>(i, k, d). i = fid \<and> k = int index) (file_chunks db) of
                         [] \<Rightarrow> []
                       | (i, k, chunkData) # others \<Rightarrow> chunkData)) [0..<nat N])\<rparr>"
  using download_found [OF assms, of finish]
  by (simp add: slot_after_read_def [abs_def])

theorem download_concatenates_in_index_order_witness:
  "Get (query (download_request ''f1'')) ''id'' = ''f1'' \<and> ''f1'' \<noteq> []
   \<and> \<not> failing
        \<lparr>file_metadata = [(''f1'', ''a.txt'', 4)],
         file_chunks = [(''f1'', 2, ''you''), (''f1'', 0, ''how''), (''f1'', 3, ''lost'')],
         failing = fails_chunk 3, journal = []\<rparr> (SelectMetadata ''f1'')
   \<and> filter (\<lambda>(i, f, n). i = ''f1'') (file_metadata
        \<lparr>file_metadata = [(''f1'', ''a.txt'', 4)],
         file_chunks = [(''f1'', 2, ''you''), (''f1'', 0, ''how''), (''f1'', 3, ''lost'')],
         failing = fails_chunk 3, journal = []\<rparr>) = [(''f1'', ''a.txt'', 4)]
   \<and> (0::int) \<le> 4 \<and> (4::int) < 2 ^ 31
   \<and> fst (downloadFileHandler (\<lambda>i. 3 - i) (download_request ''f1'')
        \<lparr>file_metadata = [(''f1'', ''a.txt'', 4)],
         file_chunks = [(''f1'', 2, ''you''), (''f1'', 0, ''how''), (''f1'', 3, ''lost'')],
         failing = fails_chunk 3, journal = []\<rparr>) =
     Sent \<lparr>status = 200,
           headers = [(''Content-Disposition'', ''attachment; filename=a.txt'')],
           body = ''howyou''\<rparr>"
proof -
  let ?db = "\<lparr>file_metadata = [(''f1'', ''a.txt'', 4)],
         file_chunks = [(''f1'', 2, ''you''), (''f1'', 0, ''how''), (''f1'', 3, ''lost'')],
         failing = fails_chunk 3, journal = []\<rparr>"
  have g: "Get (query (download_request ''f1'')) ''id'' = ''f1''"
    by (simp add: Get_def download_request_def)
  have ne: "''f1'' \<noteq> []" by simp
  have nf: "\<not> failing ?db (SelectMetadata ''f1'')" by (simp add: fails_chunk_def)
  have m: "filter (\<lambda>(i, f, n). i = ''f1'') (file_metadata ?db) = (''f1'', ''a.txt'', 4) # []"
    by simp
  have lo: "(0::int) \<le> 4" and hi: "(4::int) < 2 ^ 31" by simp_all
  have up: "[0..<4] = [0, 1, 2, 3::nat]" by code_simp
  from download_concatenates_in_index_order [OF g ne nf m lo hi, where finish = "\<lambda>i. 3 - i"]
  have "fst (downloadFileHandler (\<lambda>i. 3 - i) (download_request ''f1'') ?db) =
     Sent \<lparr>status = 200,
           headers = [(''Content-Disposition'', ''attachment; filename=a.txt'')],
           body = ''howyou''\<rparr>"
    by (simp add: up fails_chunk_def)
  with g nf m show ?thesis by simp
qed

text \<open>
  C3. For every upload that reaches the metadata write and whose metadata write
  succeeds, whatever chunk writes fail and in whatever order they arrive: the handler
  answers with status 200 and the text \<open>File uploaded successfully with ID: \<close> followed by
  the generated id; every one of the \<open>N\<close> chunk writes is issued; and every chunk whose
  write does not fail is persisted.
\<close>

theorem upload_succeeds_despite_chunk_failures:
  assumes "FormFile (fst (ParseMultipartForm (10 * 2 ^ 20) r)) ''file'' = Inr (f, handler)"
    and "read_chunks chunkSize f [] = Inr chunks"
    and "\<not> failing db (InsertMetadata fid (Filename handler) (int (length chunks)))"
  shows "fst (uploadFileHandler fid finish r db) =
           \<lparr>status = 200, headers = [], body = ''File uploaded successfully with ID: '' @ fid\<rparr>
     \<and> (\<forall>i<length chunks.
           InsertChunk fid (int i) (chunks ! i)
             \<in> set (journal (snd (uploadFileHandler fid finish r db))))
     \<and> (\<forall>i<length chunks.
           \<not> failing db (InsertChunk fid (int i) (chunks ! i)) \<longrightarrow>
           (fid, int i, chunks ! i) \<in> set (file_chunks (snd (uploadFileHandler fid finish r db))))"
proof -
  let ?ts = "sort_key (\<lambda>(index, chunk). finish index) (enumerate 0 chunks)"
  have mem: "\<And>i. i < length chunks \<Longrightarrow> (i, chunks ! i) \<in> set ?ts"
    by (simp add: in_set_enumerate_eq)
  have j: "\<And>i. i < length chunks \<Longrightarrow>
      InsertChunk fid (int i) (chunks ! i) \<in> (\<lambda>(i, c). InsertChunk fid (int i) c) ` set ?ts"
    using mem by force
  have c: "\<And>i. i < length chunks \<Longrightarrow> \<not> failing db (InsertChunk fid (int i) (chunks ! i)) \<Longrightarrow>
      (fid, int i, chunks ! i) \<in> (\<lambda>(i, c). (fid, int i, c)) `
         {t \<in> set ?ts. case t of (i, c) \<Rightarrow> \<not> failing db (InsertChunk fid (int i) c)}"
    using mem by force
  show ?thesis
    unfolding upload_stored [OF assms]
    using j c by (simp add: fold_store_chunk_journal fold_store_chunk_chunks)
qed


theorem upload_succeeds_despite_chunk_failures_witness:
  "FormFile (fst (ParseMultipartForm (10 * 2 ^ 20)
        (form_request ''a.txt'' (replicate chunkSize CHR ''a'' @ ''b'')))) ''file'' =
     Inr (\<lparr>data = replicate chunkSize CHR ''a'' @ ''b'', off = 0, bad = None\<rparr>,
          \<lparr>Filename = ''a.txt'', Size = Suc chunkSize,
           content = replicate chunkSize CHR ''a'' @ ''b'', tmpfile = None\<rparr>)
   \<and> read_chunks chunkSize \<lparr>data = replicate chunkSize CHR ''a'' @ ''b'', off = 0, bad = None\<rparr> []
        = Inr [replicate chunkSize CHR ''a'', ''b'']
   \<and> \<not> failing (empty_store (fails_chunk 0)) (InsertMetadata ''id'' ''a.txt'' 2)
   \<and> failing (empty_store (fails_chunk 0)) (InsertChunk ''id'' 0 (replicate chunkSize CHR ''a''))
   \<and> fst (uploadFileHandler ''id'' (\<lambda>i. 1 - i)
         (form_request ''a.txt'' (replicate chunkSize CHR ''a'' @ ''b''))
         (empty_store (fails_chunk 0))) =
       \<lparr>status = 200, headers = [], body = ''File uploaded successfully with ID: id''\<rparr>
   \<and> InsertChunk ''id'' 0 (replicate chunkSize CHR ''a'')
         \<in> set (journal (snd (uploadFileHandler ''id'' (\<lambda>i. 1 - i)
             (form_request ''a.txt'' (replicate chunkSize CHR ''a'' @ ''b''))
             (empty_store (fails_chunk 0)))))
   \<and> (''id'', 1, ''b'')
         \<in> set (file_chunks (snd (uploadFileHandler ''id'' (\<lambda>i. 1 - i)
             (form_request ''a.txt'' (replicate chunkSize CHR ''a'' @ ''b''))
             (empty_store (fails_chunk 0)))))"
proof -
  let ?r = "form_request ''a.txt'' (replicate chunkSize CHR ''a'' @ ''b'')"
  let ?db = "empty_store (fails_chunk 0)"
  let ?cs = "[replicate chunkSize CHR ''a'', ''b'']"
  have ff: "FormFile (fst (ParseMultipartForm (10 * 2 ^ 20) ?r)) ''file'' =
     Inr (\<lparr>data = replicate chunkSize CHR ''a'' @ ''b'', off = 0, bad = None\<rparr>,
          \<lparr>Filename = ''a.txt'', Size = Suc chunkSize,
           content = replicate chunkSize CHR ''a'' @ ''b'', tmpfile = None\<rparr>)"
    by (simp add: FormFile_form_request chunkSize_def)
  note rd = read_chunks_two
  have ok: "\<not> failing ?db (InsertMetadata ''id''
      (Filename \<lparr>Filename = ''a.txt'', Size = Suc chunkSize,
           content = replicate chunkSize CHR ''a'' @ ''b'', tmpfile = None\<rparr>) (int (length ?cs)))"
    by (simp add: empty_store_def fails_chunk_def)
  have bad0: "failing ?db (InsertChunk ''id'' 0 (replicate chunkSize CHR ''a''))"
    by (simp add: empty_store_def fails_chunk_def)
  have ok1: "\<not> failing ?db (InsertChunk ''id'' (int 1) (?cs ! 1))"
    by (simp add: empty_store_def fails_chunk_def)
  note th = upload_succeeds_despite_chunk_failures [OF ff rd ok, where finish = "\<lambda>i. 1 - i"]
  from th have resp: "fst (uploadFileHandler ''id'' (\<lambda>i. 1 - i) ?r ?db) =
       \<lparr>status = 200, headers = [], body = ''File uploaded successfully with ID: id''\<rparr>"
    by simp
  from th have "InsertChunk ''id'' (int 0) (?cs ! 0)
         \<in> set (journal (snd (uploadFileHandler ''id'' (\<lambda>i. 1 - i) ?r ?db)))"
    by (elim conjE allE [of _ 0]) simp
  then have j0: "InsertChunk ''id'' 0 (replicate chunkSize CHR ''a'')
         \<in> set (journal (snd (uploadFileHandler ''id'' (\<lambda>i. 1 - i) ?r ?db)))"
    by simp
  from th ok1 have "(''id'', int 1, ?cs ! 1)
         \<in> set (file_chunks (snd (uploadFileHandler ''id'' (\<lambda>i. 1 - i) ?r ?db)))"
    by (elim conjE allE [of _ 1]) simp
  then have c1: "(''id'', 1, ''b'')
         \<in> set (file_chunks (snd (uploadFileHandler ''id'' (\<lambda>i. 1 - i) ?r ?db)))"
    by simp
  from ff rd ok bad0 resp j0 c1 show ?thesis
    by simp
qed

text \<open>
  C7. An upload of a zero-length file whose metadata write the store accepts yields zero
  chunks and succeeds: the handler answers with status 200 and the generated id, the
  store gains the FileRecord with \<open>total_chunks = 0\<close>, and the metadata write is the only
  statement issued, so that no chunk write is attempted.
\<close>

theorem upload_empty_file:
  assumes "FormFile (fst (ParseMultipartForm (10 * 2 ^ 20) r)) ''file'' = Inr (f, handler)"
    and "data f = []"
    and "\<not> failing db (InsertMetadata fid (Filename handler) 0)"
  shows "read_chunks chunkSize f [] = Inr []
     \<and> uploadFileHandler fid finish r db =
         (\<lparr>status = 200, headers = [], body = ''File uploaded successfully with ID: '' @ fid\<rparr>,
          db\<lparr>journal := journal db @ [InsertMetadata fid (Filename handler) 0],
             file_metadata := file_metadata db @ [(fid, Filename handler, 0)]\<rparr>)"
proof -
  have rd: "read_chunks chunkSize f [] = Inr []"
    using assms(2) by (rule read_chunks_empty)
  have ok: "\<not> failing db (InsertMetadata fid (Filename handler) (int (length ([]::string list))))"
    using assms(3) by simp
  show ?thesis
    using upload_stored [OF assms(1) rd ok, of finish] rd by simp
qed

theorem upload_empty_file_witness:
  "FormFile (fst (ParseMultipartForm (10 * 2 ^ 20) (form_request ''empty.txt'' []))) ''file'' =
     Inr (\<lparr>data = [], off = 0, bad = None\<rparr>,
          \<lparr>Filename = ''empty.txt'', Size = 0, content = [], tmpfile = None\<rparr>)
   \<and> \<not> failing (empty_store (\<lambda>q. False)) (InsertMetadata ''id'' ''empty.txt'' 0)
   \<and> uploadFileHandler ''id'' (\<lambda>i. i) (form_request ''empty.txt'' []) (empty_store (\<lambda>q. False)) =
       (\<lparr>status = 200, headers = [], body = ''File uploaded successfully with ID: id''\<rparr>,
        \<lparr>file_metadata = [(''id'', ''empty.txt'', 0)], file_chunks = [],
         failing = (\<lambda>q. False), journal = [InsertMetadata ''id'' ''empty.txt'' 0]\<rparr>)"
proof -
  have ff: "FormFile (fst (ParseMultipartForm (10 * 2 ^ 20) (form_request ''empty.txt'' []))) ''file'' =
     Inr (\<lparr>data = [], off = 0, bad = None\<rparr>,
          \<lparr>Filename = ''empty.txt'', Size = 0, content = [], tmpfile = None\<rparr>)"
    by (simp add: FormFile_form_request)
  have e: "data \<lparr>data = [], off = 0, bad = None\<rparr> = []" by simp
  have ok: "\<not> failing (empty_store (\<lambda>q. False))
      (InsertMetadata ''id'' (Filename \<lparr>Filename = ''empty.txt'', Size = 0, content = [],
         tmpfile = None\<rparr>) 0)"
    by (simp add: empty_store_def)
  from upload_empty_file [OF ff e ok, where finish = "\<lambda>i. i"] ff show ?thesis
    by (simp add: empty_store_def)
qed

text \<open>
  C5. For every id in a download request for which the store holds no FileRecord, the
  handler answers with status 404 and the text \<open>File not found\<close>, which is the whole
  body; the metadata lookup is the only statement issued, so that no chunk is read. An
  id is not empty: the text of a UUID never is, and a request with an empty \<open>id\<close>
  parameter carries no id (see C10).
\<close>

theorem download_unknown_id:
  assumes "Get (query r) ''id'' = fid" and "fid \<noteq> []"
    and "fid \<notin> fst ` set (file_metadata db)"
  shows "downloadFileHandler finish r db =
     (Sent \<lparr>status = 404,
            headers = [(''Content-Type'', ''text/plain; charset=utf-8''),
                       (''X-Content-Type-Options'', ''nosniff'')],
            body = ''File not found'' @ [CHR 0x0A]\<rparr>,
      db\<lparr>journal := journal db @ [SelectMetadata fid]\<rparr>)"
  using assms(1,2) no_metadata_row [OF assms(3)]
  by (simp add: downloadFileHandler_def QueryRow_metadata_def Let_def http_Error_def)

theorem download_unknown_id_witness:
  "Get (query (download_request ''f2'')) ''id'' = ''f2'' \<and> ''f2'' \<noteq> []
   \<and> ''f2'' \<notin> fst ` set (file_metadata
        \<lparr>file_metadata = [(''f1'', ''a.txt'', 1)], file_chunks = [(''f1'', 0, ''how'')],
         failing = (\<lambda>q. False), journal = []\<rparr>)
   \<and> downloadFileHandler (\<lambda>i. i) (download_request ''f2'')
        \<lparr>file_metadata = [(''f1'', ''a.txt'', 1)], file_chunks = [(''f1'', 0, ''how'')],
         failing = (\<lambda>q. False), journal = []\<rparr> =
     (Sent \<lparr>status = 404,
            headers = [(''Content-Type'', ''text/plain; charset=utf-8''),
                       (''X-Content-Type-Options'', ''nosniff'')],
            body = ''File not found'' @ [CHR 0x0A]\<rparr>,
      \<lparr>file_metadata = [(''f1'', ''a.txt'', 1)], file_chunks = [(''f1'', 0, ''how'')],
       failing = (\<lambda>q. False), journal = [SelectMetadata ''f2'']\<rparr>)"
proof -
  let ?db = "\<lparr>file_metadata = [(''f1'', ''a.txt'', 1)], file_chunks = [(''f1'', 0, ''how'')],
         failing = (\<lambda>q. False), journal = []\<rparr>"
  have g: "Get (query (download_request ''f2'')) ''id'' = ''f2''"
    by (simp add: Get_def download_request_def)
  have ne: "''f2'' \<noteq> []" by simp
  have fresh: "''f2'' \<notin> fst ` set (file_metadata ?db)" by simp
  from download_unknown_id [OF g ne fresh, where finish = "\<lambda>i. i"] g fresh show ?thesis
    by simp
qed

text \<open>
  C10. A download request whose \<open>id\<close> parameter is absent or empty is answered with status
  400 and the text \<open>File ID is required\<close>, and the store is left as it was: no statement
  is issued, even when rows are stored under the empty id.
\<close>

theorem download_without_id:
  "map_of (query r) ''id'' = None \<or> map_of (query r) ''id'' = Some [] \<Longrightarrow>
   downloadFileHandler finish r db =
     (Sent \<lparr>status = 400,
            headers = [(''Content-Type'', ''text/plain; charset=utf-8''),
                       (''X-Content-Type-Options'', ''nosniff'')],
            body = ''File ID is required'' @ [CHR 0x0A]\<rparr>,
      db)"
  by (auto simp: downloadFileHandler_def Get_def http_Error_def)

theorem download_without_id_witness:
  "map_of (query \<lparr>multipart_body = None, tmp_disk = Healthy, query = [],
                  MultipartForm = None\<rparr>) ''id'' = None
   \<and> map_of (query (download_request [])) ''id'' = Some []
   \<and> downloadFileHandler (\<lambda>i. i)
        \<lparr>multipart_body = None, tmp_disk = Healthy, query = [], MultipartForm = None\<rparr>
        \<lparr>file_metadata = [([], ''a.txt'', 1)], file_chunks = [([], 0, ''how'')],
         failing = (\<lambda>q. False), journal = []\<rparr> =
     (Sent \<lparr>status = 400,
            headers = [(''Content-Type'', ''text/plain; charset=utf-8''),
                       (''X-Content-Type-Options'', ''nosniff'')],
            body = ''File ID is required'' @ [CHR 0x0A]\<rparr>,
      \<lparr>file_metadata = [([], ''a.txt'', 1)], file_chunks = [([], 0, ''how'')],
       failing = (\<lambda>q. False), journal = []\<rparr>)
   \<and> downloadFileHandler (\<lambda>i. i) (download_request [])
        \<lparr>file_metadata = [([], ''a.txt'', 1)], file_chunks = [([], 0, ''how'')],
         failing = (\<lambda>q. False), journal = []\<rparr> =
     (Sent \<lparr>status = 400,
            headers = [(''Content-Type'', ''text/plain; charset=utf-8''),
                       (''X-Content-Type-Options'', ''nosniff'')],
            body = ''File ID is required'' @ [CHR 0x0A]\<rparr>,
      \<lparr>file_metadata = [([], ''a.txt'', 1)], file_chunks = [([], 0, ''how'')],
       failing = (\<lambda>q. False), journal = []\<rparr>)"
proof -
  let ?r0 = "\<lparr>multipart_body = None, tmp_disk = Healthy, query = [], MultipartForm = None\<rparr>"
  let ?db = "\<lparr>file_metadata = [([], ''a.txt'', 1)], file_chunks = [([], 0, ''how'')],
         failing = (\<lambda>q. False), journal = []\<rparr>"
  have a: "map_of (query ?r0) ''id'' = None" by simp
  have b: "map_of (query (download_request [])) ''id'' = Some []"
    by (simp add: download_request_def)
  from a have a': "map_of (query ?r0) ''id'' = None \<or> map_of (query ?r0) ''id'' = Some []"
    by (rule disjI1)
  from b have b': "map_of (query (download_request [])) ''id'' = None
      \<or> map_of (query (download_request [])) ''id'' = Some []"
    by (rule disjI2)
  from download_without_id [OF a', where finish = "\<lambda>i. i" and db = ?db]
       download_without_id [OF b', where finish = "\<lambda>i. i" and db = ?db] a b
  show ?thesis by simp
qed

text \<open>
  C8. In every upload the statements reach the store in this order: first the metadata
  write, then chunk writes only. An upload that is refused before the metadata write
  issues no statement and creates no row. If the metadata write fails, the handler
  answers with status 500, issues no chunk write and creates no row. If it succeeds, the
  upload creates exactly one FileRecord, issues \<open>N\<close> chunk writes and creates at most \<open>N\<close>
  chunk rows, all under the generated id; the rows that were in the store stay as they
  were.
\<close>

theorem upload_metadata_before_chunks:
  assumes "uploadFileHandler fid finish r db = (resp, db')"
  shows "\<exists>js ms cs.
      journal db' = journal db @ js
    \<and> file_metadata db' = file_metadata db @ ms
    \<and> file_chunks db' = file_chunks db @ cs
    \<and> (case js of
          [] \<Rightarrow> ms = [] \<and> cs = [] \<and> status resp \<noteq> 200
        | j # ws \<Rightarrow>
            (\<exists>fname N. j = InsertMetadata fid fname (int N)
               \<and> (if failing db j
                   then ws = [] \<and> ms = [] \<and> cs = [] \<and> status resp = 500
                   else ms = [(fid, fname, int N)]
                      \<and> (\<exists>ts. ws = map (\<lambda>(i, c). InsertChunk fid (int i) c) ts \<and> length ts = N)
                      \<and> length cs \<le> N
                      \<and> (\<forall>row\<in>set cs. fst row = fid)
                      \<and> status resp = 200)))"
proof (cases "FormFile (fst (ParseMultipartForm (10 * 2 ^ 20) r)) ''file''")
  case (Inl e)
  from upload_rejected [OF Inl, of fid finish db] assms
  have "db' = db" "status resp = 400" by (auto simp: http_Error_def)
  then show ?thesis by (intro exI [of _ "[]"]) simp
next
  case (Inr p)
  obtain f h where ff: "FormFile (fst (ParseMultipartForm (10 * 2 ^ 20) r)) ''file'' = Inr (f, h)"
    using Inr by (cases p) simp
  show ?thesis
  proof (cases "read_chunks chunkSize f []")
    case (Inl e)
    from upload_read_failed [OF ff Inl, of fid finish db] assms
    have "db' = db" "status resp = 500" by (auto simp: http_Error_def)
    then show ?thesis by (intro exI [of _ "[]"]) simp
  next
    case (Inr chunks)
    let ?j = "InsertMetadata fid (Filename h) (int (length chunks))"
    show ?thesis
    proof (cases "failing db ?j")
      case True
      from upload_metadata_failed [OF ff Inr True, of finish] assms
      have "db' = db\<lparr>journal := journal db @ [?j]\<rparr>" "status resp = 500"
        by (auto simp: http_Error_def)
      then show ?thesis using True
        by (intro exI [of _ "[?j]"] exI [of _ "[]"]) auto
    next
      case False
      let ?ts = "sort_key (\<lambda>(index, chunk). finish index) (enumerate 0 chunks)"
      let ?ok = "filter (\<lambda>(i, c). \<not> failing db (InsertChunk fid (int i) c)) ?ts"
      let ?db1 = "db\<lparr>journal := journal db @ [?j],
                     file_metadata := file_metadata db @ [(fid, Filename h, int (length chunks))]\<rparr>"
      from upload_stored [OF ff Inr False, of finish] assms
      have d: "db' = fold (store_chunk fid) ?ts ?db1" and st: "status resp = 200"
        by auto
      have jn: "journal db' = journal db @ ?j # map (\<lambda>(i, c). InsertChunk fid (int i) c) ?ts"
        by (simp add: d fold_store_chunk_journal)
      have md: "file_metadata db' = file_metadata db @ [(fid, Filename h, int (length chunks))]"
        by (simp add: d fold_store_chunk_metadata)
      have ch: "file_chunks db' = file_chunks db @ map (\<lambda>(i, c). (fid, int i, c)) ?ok"
        by (simp add: d fold_store_chunk_chunks)
      have len: "length ?ts = length chunks" by simp
      have "length ?ok \<le> length ?ts" by (rule length_filter_le)
      then have lc: "length (map (\<lambda>(i, c). (fid, int i, c)) ?ok) \<le> length chunks"
        using len by simp
      have own: "\<forall>row\<in>set (map (\<lambda>(i, c). (fid, int i, c)) ?ok). fst row = fid"
        by auto
      show ?thesis
        apply (intro exI [of _ "?j # map (\<lambda>(i, c). InsertChunk fid (int i) c) ?ts"]
            exI [of _ "[(fid, Filename h, int (length chunks))]"]
            exI [of _ "map (\<lambda>(i, c). (fid, int i, c)) ?ok"])
        apply (simp only: jn md ch list.case simp_thms)
        apply (intro exI [of _ "Filename h"] exI [of _ "length chunks"] conjI refl)
        apply (simp only: False if_False)
        apply (intro conjI refl exI [of _ ?ts] len lc own st)
        done
    qed
  qed
qed

theorem upload_metadata_before_chunks_witness:
  "uploadFileHandler ''id'' id (form_request ''a.txt'' ''hello'') (empty_store no_failure) =
     (\<lparr>status = 200, headers = [], body = ''File uploaded successfully with ID: id''\<rparr>,
      \<lparr>file_metadata = [(''id'', ''a.txt'', 1)], file_chunks = [(''id'', 0, ''hello'')],
       failing = no_failure,
       journal = [InsertMetadata ''id'' ''a.txt'' 1, InsertChunk ''id'' 0 ''hello'']\<rparr>)
   \<and> (\<exists>js ms cs.
      journal \<lparr>file_metadata = [(''id'', ''a.txt'', 1)], file_chunks = [(''id'', 0, ''hello'')],
       failing = no_failure,
       journal = [InsertMetadata ''id'' ''a.txt'' 1, InsertChunk ''id'' 0 ''hello'']\<rparr> = journal (empty_store no_failure) @ js
    \<and> file_metadata \<lparr>file_metadata = [(''id'', ''a.txt'', 1)], file_chunks = [(''id'', 0, ''hello'')],
       failing = no_failure,
       journal = [InsertMetadata ''id'' ''a.txt'' 1, InsertChunk ''id'' 0 ''hello'']\<rparr> = file_metadata (empty_store no_failure) @ ms
    \<and> file_chunks \<lparr>file_metadata = [(''id'', ''a.txt'', 1)], file_chunks = [(''id'', 0, ''hello'')],
       failing = no_failure,
       journal = [InsertMetadata ''id'' ''a.txt'' 1, InsertChunk ''id'' 0 ''hello'']\<rparr> = file_chunks (empty_store no_failure) @ cs
    \<and> (case js of
          [] \<Rightarrow> ms = [] \<and> cs = [] \<and> status \<lparr>status = 200, headers = [], body = ''File uploaded successfully with ID: id''\<rparr> \<noteq> 200
        | j # ws \<Rightarrow>
            (\<exists>fname N. j = InsertMetadata ''id'' fname (int N)
               \<and> (if failing (empty_store no_failure) j
                   then ws = [] \<and> ms = [] \<and> cs = [] \<and> status \<lparr>status = 200, headers = [], body = ''File uploaded successfully with ID: id''\<rparr> = 500
                   else ms = [(''id'', fname, int N)]
                      \<and> (\<exists>ts. ws = map (\<lambda>(i, c). InsertChunk ''id'' (int i) c) ts \<and> length ts = N)
                      \<and> length cs \<le> N
                      \<and> (\<forall>row\<in>set cs. fst row = ''id'')
                      \<and> status \<lparr>status = 200, headers = [], body = ''File uploaded successfully with ID: id''\<rparr> = 200))))
   \<and> uploadFileHandler ''id'' id (form_request ''a.txt'' ''hello'')
      (empty_store (fails_only (InsertMetadata ''id'' ''a.txt'' 1))) =
     (\<lparr>status = 500,
       headers = [(''Content-Type'', ''text/plain; charset=utf-8''),
                  (''X-Content-Type-Options'', ''nosniff'')],
       body = ''Error storing file metadata'' @ [CHR 0x0A]\<rparr>,
      \<lparr>file_metadata = [], file_chunks = [],
       failing = fails_only (InsertMetadata ''id'' ''a.txt'' 1),
       journal = [InsertMetadata ''id'' ''a.txt'' 1]\<rparr>)
   \<and> (\<exists>js ms cs.
      journal \<lparr>file_metadata = [], file_chunks = [],
       failing = fails_only (InsertMetadata ''id'' ''a.txt'' 1),
       journal = [InsertMetadata ''id'' ''a.txt'' 1]\<rparr> = journal (empty_store (fails_only (InsertMetadata ''id'' ''a.txt'' 1))) @ js
    \<and> file_metadata \<lparr>file_metadata = [], file_chunks = [],
       failing = fails_only (InsertMetadata ''id'' ''a.txt'' 1),
       journal = [InsertMetadata ''id'' ''a.txt'' 1]\<rparr> = file_metadata (empty_store (fails_only (InsertMetadata ''id'' ''a.txt'' 1))) @ ms
    \<and> file_chunks \<lparr>file_metadata = [], file_chunks = [],
       failing = fails_only (InsertMetadata ''id'' ''a.txt'' 1),
       journal = [InsertMetadata ''id'' ''a.txt'' 1]\<rparr> = file_chunks (empty_store (fails_only (InsertMetadata ''id'' ''a.txt'' 1))) @ cs
    \<and> (case js of
          [] \<Rightarrow> ms = [] \<and> cs = [] \<and> status \<lparr>status = 500,
       headers = [(''Content-Type'', ''text/plain; charset=utf-8''),
                  (''X-Content-Type-Options'', ''nosniff'')],
       body = ''Error storing file metadata'' @ [CHR 0x0A]\<rparr> \<noteq> 200
        | j # ws \<Rightarrow>
            (\<exists>fname N. j = InsertMetadata ''id'' fname (int N)
               \<and> (if failing (empty_store (fails_only (InsertMetadata ''id'' ''a.txt'' 1))) j
                   then ws = [] \<and> ms = [] \<and> cs = [] \<and> status \<lparr>status = 500,
       headers = [(''Content-Type'', ''text/plain; charset=utf-8''),
                  (''X-Content-Type-Options'', ''nosniff'')],
       body = ''Error storing file metadata'' @ [CHR 0x0A]\<rparr> = 500
                   else ms = [(''id'', fname, int N)]
                      \<and> (\<exists>ts. ws = map (\<lambda>(i, c). InsertChunk ''id'' (int i) c) ts \<and> length ts = N)
                      \<and> length cs \<le> N
                      \<and> (\<forall>row\<in>set cs. fst row = ''id'')
                      \<and> status \<lparr>status = 500,
       headers = [(''Content-Type'', ''text/plain; charset=utf-8''),
                  (''X-Content-Type-Options'', ''nosniff'')],
       body = ''Error storing file metadata'' @ [CHR 0x0A]\<rparr> = 200))))"
  by (intro conjI upload_small_run upload_small_run_refused
        upload_metadata_before_chunks [OF upload_small_run]
        upload_metadata_before_chunks [OF upload_small_run_refused])

text \<open>
  C4, as stated, fails. An upload of a five-byte file to an empty store: in the state in
  which the FileRecord is first visible, it declares one chunk and no chunk is persisted.
\<close>

theorem record_visible_before_chunks_counterexample:
  "find_metadata ''id''
     (uploadFileHandler_states ''id'' id (form_request ''a.txt'' ''hello'') (empty_store no_failure) ! 0)
     = None
   \<and> find_metadata ''id''
     (uploadFileHandler_states ''id'' id (form_request ''a.txt'' ''hello'') (empty_store no_failure) ! 1)
     = Some (''a.txt'', 1)
   \<and> persisted_chunks ''id''
     (uploadFileHandler_states ''id'' id (form_request ''a.txt'' ''hello'') (empty_store no_failure) ! 1)
     = 0
   \<and> \<not> record_matches_chunks ''id''
     (uploadFileHandler_states ''id'' id (form_request ''a.txt'' ''hello'') (empty_store no_failure) ! 1)"
proof -
  have ff: "FormFile (fst (ParseMultipartForm (10 * 2 ^ 20) (form_request ''a.txt'' ''hello''))) ''file'' =
     Inr (\<lparr>data = ''hello'', off = 0, bad = None\<rparr>,
          \<lparr>Filename = ''a.txt'', Size = 5, content = ''hello'', tmpfile = None\<rparr>)"
    by (simp add: FormFile_form_request)
  have rd: "read_chunks chunkSize \<lparr>data = ''hello'', off = 0, bad = None\<rparr> [] = Inr [''hello'']"
    by (rule read_chunks_one) (simp_all add: chunkSize_def)
  have ok: "\<not> failing (empty_store no_failure) (InsertMetadata ''id''
      (Filename \<lparr>Filename = ''a.txt'', Size = 5, content = ''hello'', tmpfile = None\<rparr>)
      (int (length [''hello''])))"
    by (simp add: empty_store_def no_failure_def)
  show ?thesis
    unfolding upload_states_stored [OF ff rd ok]
    by (simp add: empty_store_def find_metadata_def persisted_chunks_def
          record_matches_chunks_def)
qed

text \<open>
  C4, amended. For every upload under an id new to the store whose metadata write succeeds:
  the record is not visible before the metadata write; in the state in which it is first
  visible, \<open>total_chunks\<close> is the number \<open>N\<close> of chunks the splitter produced and no chunk is
  persisted for the id; in every later state of the upload the record is unchanged and at
  most \<open>N\<close> chunks are persisted; in the last state, which is the one the handler returns
  in, the number of chunks persisted is the number of chunk writes that did not fail,
  and if none failed it equals \<open>total_chunks\<close>.
\<close>

theorem record_visible_with_declared_count:
  assumes "FormFile (fst (ParseMultipartForm (10 * 2 ^ 20) r)) ''file'' = Inr (f, handler)"
    and "read_chunks chunkSize f [] = Inr chunks"
    and "\<not> failing db (InsertMetadata fid (Filename handler) (int (length chunks)))"
    and "fid \<notin> fst ` set (file_metadata db)"
    and "fid \<notin> fst ` set (file_chunks db)"
  shows "find_metadata fid (uploadFileHandler_states fid finish r db ! 0) = None
     \<and> find_metadata fid (uploadFileHandler_states fid finish r db ! 1)
          = Some (Filename handler, int (length chunks))
     \<and> persisted_chunks fid (uploadFileHandler_states fid finish r db ! 1) = 0
     \<and> (\<forall>s\<in>set (tl (uploadFileHandler_states fid finish r db)).
           find_metadata fid s = Some (Filename handler, int (length chunks))
           \<and> persisted_chunks fid s \<le> length chunks)
     \<and> persisted_chunks fid (snd (uploadFileHandler fid finish r db))
          = length (filter (\<lambda>(i, c). \<not> failing db (InsertChunk fid (int i) c))
                      (enumerate 0 chunks))
     \<and> ((\<forall>i<length chunks. \<not> failing db (InsertChunk fid (int i) (chunks ! i)))
          \<longrightarrow> record_matches_chunks fid (snd (uploadFileHandler fid finish r db)))
     \<and> last (uploadFileHandler_states fid finish r db) = snd (uploadFileHandler fid finish r db)"
proof -
  let ?j = "InsertMetadata fid (Filename handler) (int (length chunks))"
  let ?ts = "sort_key (\<lambda>(index, chunk). finish index) (enumerate 0 chunks)"
  let ?ok = "\<lambda>(i, c). \<not> failing db (InsertChunk fid (int i) c)"
  let ?db1 = "db\<lparr>journal := journal db @ [?j],
                 file_metadata := file_metadata db @ [(fid, Filename handler, int (length chunks))]\<rparr>"
  note sts = upload_states_stored [OF assms(1,2,3), of finish]
  note fin = upload_stored [OF assms(1,2,3), of finish]
  have none: "find_metadata fid db = None"
    using assms(4) by (rule no_metadata_row)
  have vis: "find_metadata fid ?db1 = Some (Filename handler, int (length chunks))"
    using none by (rule find_metadata_appended)
  have p1: "persisted_chunks fid ?db1 = 0"
    using no_chunk_row [OF assms(5)] by (simp add: persisted_chunks_def)
  have f1: "failing ?db1 = failing db" by simp
  have a: "find_metadata fid (uploadFileHandler_states fid finish r db ! 0) = None"
    by (simp add: sts none)
  have b: "find_metadata fid (uploadFileHandler_states fid finish r db ! 1)
          = Some (Filename handler, int (length chunks))"
    by (simp add: sts hd_states_from vis)
  have c: "persisted_chunks fid (uploadFileHandler_states fid finish r db ! 1) = 0"
    by (simp add: sts hd_states_from p1)
  have d: "\<forall>s\<in>set (tl (uploadFileHandler_states fid finish r db)).
           find_metadata fid s = Some (Filename handler, int (length chunks))
           \<and> persisted_chunks fid s \<le> length chunks"
  proof
    fix s assume "s \<in> set (tl (uploadFileHandler_states fid finish r db))"
    then have "s \<in> set (states_from (store_chunk fid) ?ts ?db1)" by (simp add: sts)
    from states_from_fold [OF this] obtain k where
      s: "s = fold (store_chunk fid) (take k ?ts) ?db1" by blast
    have "length (filter ?ok (take k ?ts)) \<le> length (take k ?ts)"
      by (rule length_filter_le)
    also have "\<dots> \<le> length chunks" by simp
    finally have "persisted_chunks fid s \<le> length chunks"
      unfolding s persisted_chunks_fold p1 f1 by simp
    moreover have "find_metadata fid s = Some (Filename handler, int (length chunks))"
      unfolding s find_metadata_fold by (rule vis)
    ultimately show "find_metadata fid s = Some (Filename handler, int (length chunks))
           \<and> persisted_chunks fid s \<le> length chunks" by simp
  qed
  have cnt: "length (filter ?ok ?ts) = length (filter ?ok (enumerate 0 chunks))"
    by (simp add: filter_sort)
  have e: "persisted_chunks fid (snd (uploadFileHandler fid finish r db))
          = length (filter ?ok (enumerate 0 chunks))"
    unfolding fin snd_conv persisted_chunks_fold p1 f1 using cnt by simp
  have g: "(\<forall>i<length chunks. \<not> failing db (InsertChunk fid (int i) (chunks ! i)))
          \<longrightarrow> record_matches_chunks fid (snd (uploadFileHandler fid finish r db))"
  proof
    assume all: "\<forall>i<length chunks. \<not> failing db (InsertChunk fid (int i) (chunks ! i))"
    have "filter ?ok (enumerate 0 chunks) = enumerate 0 chunks"
      by (rule filter_True) (use all in \<open>auto simp: in_set_enumerate_eq\<close>)
    then have "persisted_chunks fid (snd (uploadFileHandler fid finish r db)) = length chunks"
      using e by simp
    moreover have "find_metadata fid (snd (uploadFileHandler fid finish r db))
        = Some (Filename handler, int (length chunks))"
      unfolding fin snd_conv find_metadata_fold by (rule vis)
    ultimately show "record_matches_chunks fid (snd (uploadFileHandler fid finish r db))"
      by (simp add: record_matches_chunks_def)
  qed
  from a b c d e g upload_states_last [of fid finish r db] show ?thesis by blast
qed


theorem record_visible_with_declared_count_witness:
  "FormFile (fst (ParseMultipartForm (10 * 2 ^ 20)
        (form_request ''a.txt'' (replicate chunkSize CHR ''a'' @ ''b'')))) ''file'' =
     Inr (\<lparr>data = replicate chunkSize CHR ''a'' @ ''b'', off = 0, bad = None\<rparr>,
          \<lparr>Filename = ''a.txt'', Size = Suc chunkSize,
           content = replicate chunkSize CHR ''a'' @ ''b'', tmpfile = None\<rparr>)
   \<and> read_chunks chunkSize \<lparr>data = replicate chunkSize CHR ''a'' @ ''b'', off = 0, bad = None\<rparr> []
        = Inr [replicate chunkSize CHR ''a'', ''b'']
   \<and> \<not> failing (empty_store (fails_chunk 0)) (InsertMetadata ''id'' ''a.txt'' 2)
   \<and> ''id'' \<notin> fst ` set (file_metadata (empty_store (fails_chunk 0)))
   \<and> ''id'' \<notin> fst ` set (file_chunks (empty_store (fails_chunk 0)))
   \<and> find_metadata ''id'' (uploadFileHandler_states ''id'' id
         (form_request ''a.txt'' (replicate chunkSize CHR ''a'' @ ''b''))
         (empty_store (fails_chunk 0)) ! 1) = Some (''a.txt'', 2)
   \<and> persisted_chunks ''id'' (uploadFileHandler_states ''id'' id
         (form_request ''a.txt'' (replicate chunkSize CHR ''a'' @ ''b''))
         (empty_store (fails_chunk 0)) ! 1) = 0
   \<and> persisted_chunks ''id'' (snd (uploadFileHandler ''id'' id
         (form_request ''a.txt'' (replicate chunkSize CHR ''a'' @ ''b''))
         (empty_store (fails_chunk 0)))) = 1"
proof -
  let ?r = "form_request ''a.txt'' (replicate chunkSize CHR ''a'' @ ''b'')"
  let ?db = "empty_store (fails_chunk 0)"
  let ?cs = "[replicate chunkSize CHR ''a'', ''b'']"
  have ff: "FormFile (fst (ParseMultipartForm (10 * 2 ^ 20) ?r)) ''file'' =
     Inr (\<lparr>data = replicate chunkSize CHR ''a'' @ ''b'', off = 0, bad = None\<rparr>,
          \<lparr>Filename = ''a.txt'', Size = Suc chunkSize,
           content = replicate chunkSize CHR ''a'' @ ''b'', tmpfile = None\<rparr>)"
    by (simp add: FormFile_form_request chunkSize_def)
  note rd = read_chunks_two
  have ok: "\<not> failing ?db (InsertMetadata ''id''
      (Filename \<lparr>Filename = ''a.txt'', Size = Suc chunkSize,
           content = replicate chunkSize CHR ''a'' @ ''b'', tmpfile = None\<rparr>) (int (length ?cs)))"
    by (simp add: empty_store_def fails_chunk_def)
  have m: "''id'' \<notin> fst ` set (file_metadata ?db)" by (simp add: empty_store_def)
  have c: "''id'' \<notin> fst ` set (file_chunks ?db)" by (simp add: empty_store_def)
  have cnt: "length (filter (\<lambda>(i, c). \<not> failing ?db (InsertChunk ''id'' (int i) c))
                      (enumerate 0 ?cs)) = 1"
    by (simp add: empty_store_def fails_chunk_def)
  from record_visible_with_declared_count [OF ff rd ok m c, where finish = id]
  have "find_metadata ''id'' (uploadFileHandler_states ''id'' id ?r ?db ! 1) = Some (''a.txt'', 2)"
    and "persisted_chunks ''id'' (uploadFileHandler_states ''id'' id ?r ?db ! 1) = 0"
    and "persisted_chunks ''id'' (snd (uploadFileHandler ''id'' id ?r ?db)) = 1"
    using cnt by simp_all
  with ff rd ok m c show ?thesis by simp
qed

text \<open>
  C9. An upload of a single file of 10 MiB + 1 bytes is not rejected: the bound given to
  \<open>ParseMultipartForm\<close> only moves the part to a temporary file, and the handler answers
  with status 200 and the text \<open>File uploaded successfully with ID: \<close> followed by the id.
\<close>

theorem upload_oversized_accepted:
  "10 * 2 ^ 20 < length (replicate (10 * 2 ^ 20 + 1) CHR ''x'')
   \<and> map_sum id (tmpfile \<circ> snd)
         (FormFile (fst (ParseMultipartForm (10 * 2 ^ 20)
            (form_request ''big.bin'' (replicate (10 * 2 ^ 20 + 1) CHR ''x'')))) ''file'')
       = Inr (Some Healthy)
   \<and> fst (uploadFileHandler ''id'' id
         (form_request ''big.bin'' (replicate (10 * 2 ^ 20 + 1) CHR ''x''))
         (empty_store no_failure)) =
       \<lparr>status = 200, headers = [], body = ''File uploaded successfully with ID: id''\<rparr>"
proof -
  let ?big = "replicate (10 * 2 ^ 20 + 1) CHR ''x''"
  have pos: "0 < chunkSize" by (simp add: chunkSize_def)
  have ff: "FormFile (fst (ParseMultipartForm (10 * 2 ^ 20) (form_request ''big.bin'' ?big))) ''file'' =
     Inr (\<lparr>data = ?big, off = 0, bad = None\<rparr>,
          \<lparr>Filename = ''big.bin'', Size = length ?big, content = ?big,
           tmpfile = (if 10 * 2 ^ 20 < length ?big then Some Healthy else None)\<rparr>)"
    by (rule FormFile_form_request) simp_all
  have rd: "read_chunks chunkSize \<lparr>data = ?big, off = 0, bad = None\<rparr> []
      = Inr (chunks_of chunkSize ?big)"
    by (simp add: read_chunks_eq [OF pos] faulty_def)
  have ok: "\<not> failing (empty_store no_failure) (InsertMetadata ''id''
      (Filename \<lparr>Filename = ''big.bin'', Size = length ?big, content = ?big,
         tmpfile = (if 10 * 2 ^ 20 < length ?big then Some Healthy else None)\<rparr>)
      (int (length (chunks_of chunkSize ?big))))"
    by (simp add: empty_store_def no_failure_def)
  have "fst (uploadFileHandler ''id'' id (form_request ''big.bin'' ?big) (empty_store no_failure)) =
       \<lparr>status = 200, headers = [], body = ''File uploaded successfully with ID: id''\<rparr>"
    unfolding upload_stored [OF ff rd ok] by simp
  moreover have "map_sum id (tmpfile \<circ> snd)
      (FormFile (fst (ParseMultipartForm (10 * 2 ^ 20) (form_request ''big.bin'' ?big))) ''file'')
       = Inr (Some Healthy)"
    unfolding ff by simp
  ultimately show ?thesis by simp
qed

end
